theory Spec2Isabelle
  imports Main
begin

section \<open>JavaScript values\<close>

text \<open>
  The payloads that the RPC layer handles are typed \<open>any\<close> in the source: whatever the
  JSON body of the node's answer decodes to. They are modelled as JSON values, with
  \<open>JUndefined\<close> for an absent property. An object lists each of its keys once.
  Numbers are integral; a fractional number behaves like a non-zero integer in
  everything the code below does with a value (truthiness, a regular expression test of
  its decimal notation).
\<close>

datatype jsval =
    JUndefined
  | JNull
  | JBool bool
  | JNum int
  | JStr string
  | JArr "jsval list"
  | JObj "(string \<times> jsval) list"

text \<open>JavaScript's \<open>ToBoolean\<close>: what \<open>if (v)\<close>, \<open>!v\<close> and \<open>a && b\<close> test.\<close>

fun truthy :: "jsval \<Rightarrow> bool" where
  "truthy JUndefined = False"
| "truthy JNull = False"
| "truthy (JBool b) = b"
| "truthy (JNum n) = (n \<noteq> 0)"
| "truthy (JStr s) = (s \<noteq> [])"
| "truthy (JArr xs) = True"
| "truthy (JObj kvs) = True"

text \<open>
  The property read \<open>v.k\<close> on a value that is neither \<open>null\<close> nor \<open>undefined\<close>
  (on those two the read throws a \<open>TypeError\<close>, which every caller below that can meet
  them models itself). An absent property reads as \<open>undefined\<close>; arrays and strings
  have their \<open>length\<close>.
\<close>

fun get_prop :: "jsval \<Rightarrow> string \<Rightarrow> jsval" where
  "get_prop (JObj kvs) k = (case map_of kvs k of Some v \<Rightarrow> v | None \<Rightarrow> JUndefined)"
| "get_prop (JArr xs) k = (if k = ''length'' then JNum (int (length xs)) else JUndefined)"
| "get_prop (JStr s) k = (if k = ''length'' then JNum (int (length s)) else JUndefined)"
| "get_prop v k = JUndefined"

text \<open>The indexed read \<open>v[0]\<close>, again on a value that is neither \<open>null\<close> nor \<open>undefined\<close>.\<close>

fun first_element :: "jsval \<Rightarrow> jsval" where
  "first_element (JArr xs) = (case xs of [] \<Rightarrow> JUndefined | x # _ \<Rightarrow> x)"
| "first_element (JStr s) = (case s of [] \<Rightarrow> JUndefined | c # _ \<Rightarrow> JStr [c])"
| "first_element (JObj kvs) = (case map_of kvs ''0'' of Some v \<Rightarrow> v | None \<Rightarrow> JUndefined)"
| "first_element v = JUndefined"

definition digit_char :: "nat \<Rightarrow> char" where
  "digit_char d = char_of (48 + d)"

fun decimal :: "nat \<Rightarrow> string" where
  "decimal n = (if n < 10 then [digit_char n] else decimal (n div 10) @ [digit_char (n mod 10)])"

declare decimal.simps [simp del]

fun join_comma :: "string list \<Rightarrow> string" where
  "join_comma [] = []"
| "join_comma [s] = s"
| "join_comma (s # t # ss) = s @ '','' @ join_comma (t # ss)"

text \<open>
  JavaScript's \<open>ToString\<close>, which a template literal and \<open>RegExp.prototype.test\<close>
  apply to their argument. An array is the comma-separated list of its elements, where
  \<open>null\<close> and \<open>undefined\<close> elements are empty.
\<close>

fun to_string :: "jsval \<Rightarrow> string" where
  "to_string JUndefined = ''undefined''"
| "to_string JNull = ''null''"
| "to_string (JBool b) = (if b then ''true'' else ''false'')"
| "to_string (JNum n) = (if n < 0 then ''-'' @ decimal (nat (- n)) else decimal (nat n))"
| "to_string (JStr s) = s"
| "to_string (JArr xs) =
     join_comma (map (\<lambda>x. if x = JNull \<or> x = JUndefined then [] else to_string x) xs)"
| "to_string (JObj kvs) = ''[object Object]''"

section \<open>The regular expressions of the validator\<close>

definition is_hex_digit :: "char \<Rightarrow> bool" where
  "is_hex_digit c = (c \<in> set ''0123456789abcdefABCDEF'')"

text \<open>\<open>/^0x[a-fA-F0-9]+$/.test(s)\<close>: without the multiline flag the anchors are the two ends of the string.\<close>

fun test_hex_quantity :: "string \<Rightarrow> bool" where
  "test_hex_quantity (a # b # ds) =
     (a = CHR ''0'' \<and> b = CHR ''x'' \<and> ds \<noteq> [] \<and> list_all is_hex_digit ds)"
| "test_hex_quantity s = False"

text \<open>\<open>/^0x[a-fA-F0-9]{n}$/.test(s)\<close>, for the 64 digits of a hash and the 40 of an address.\<close>

fun test_hex_fixed :: "nat \<Rightarrow> string \<Rightarrow> bool" where
  "test_hex_fixed n (a # b # ds) =
     (a = CHR ''0'' \<and> b = CHR ''x'' \<and> length ds = n \<and> list_all is_hex_digit ds)"
| "test_hex_fixed n s = False"

section \<open>Errors\<close>

text \<open>
  The classes of \<open>api-errors.ts\<close>, next to the built-in \<open>Error\<close> and \<open>TypeError\<close>.
  A thrown value is an instance of one of them with its message, or a value that is not
  an \<open>Error\<close> at all (JavaScript can throw anything).
\<close>

datatype error_class =
  Error | TypeError | RPCError | WalletAPIError | UserAPIError | GenericAPIError

datatype thrown = Exn error_class string | NonError jsval

text \<open>\<open>error instanceof Error ? error.message : 'Unknown error'\<close>\<close>

fun message_of :: "thrown \<Rightarrow> string" where
  "message_of (Exn c m) = m"
| "message_of (NonError v) = ''Unknown error''"

text \<open>
  \<open>handleError\<close> never returns: the model gives the value it throws. Its context message
  only goes to the console and is left out, here and in the callers.
\<close>

definition handleError :: "thrown \<Rightarrow> string \<Rightarrow> thrown" where
  "handleError error errorType =
     (let errorMessage = message_of error in
      if errorType = ''RPC'' then Exn RPCError errorMessage
      else if errorType = ''WALLET_API'' then Exn WalletAPIError errorMessage
      else if errorType = ''USER_API'' then Exn UserAPIError errorMessage
      else Exn GenericAPIError errorMessage)"

section \<open>validateApiResponse\<close>

text \<open>The messages \<open>Invalid "from" address format\<close> and \<open>Invalid "to" address format\<close>;
  \<open>CHR 0x22\<close> is the double quote.\<close>

definition invalid_address_format :: "string \<Rightarrow> string" where
  "invalid_address_format field =
     ''Invalid '' @ [CHR 0x22] @ field @ [CHR 0x22] @ '' address format''"

text \<open>
  The validator returns nothing or throws; \<open>Inl\<close> carries the thrown value. Each
  \<open>handleError\<close> call leaves the function, so the first failing check decides.
\<close>

definition and_then :: "thrown + unit \<Rightarrow> thrown + unit \<Rightarrow> thrown + unit" where
  "and_then first second = (case first of Inl e \<Rightarrow> Inl e | Inr u \<Rightarrow> second)"

text \<open>The block of checks under \<open>if (response.number && response.hash)\<close>.\<close>

definition block_format_checks :: "jsval \<Rightarrow> string \<Rightarrow> thrown + unit" where
  "block_format_checks response errorType =
     (if truthy (get_prop response ''number'') \<and> truthy (get_prop response ''hash'') then
        (if \<not> test_hex_quantity (to_string (get_prop response ''number'')) then
           Inl (handleError (Exn Error ''Invalid block number format'') errorType)
         else if \<not> test_hex_fixed 64 (to_string (get_prop response ''hash'')) then
           Inl (handleError (Exn Error ''Invalid block hash format'') errorType)
         else Inr ())
      else Inr ())"

text \<open>The block under \<open>if (response.transactionIndex && response.from && response.to)\<close>.\<close>

definition transaction_format_checks :: "jsval \<Rightarrow> string \<Rightarrow> thrown + unit" where
  "transaction_format_checks response errorType =
     (if truthy (get_prop response ''transactionIndex'') \<and> truthy (get_prop response ''from'')
          \<and> truthy (get_prop response ''to'') then
        (if \<not> test_hex_fixed 40 (to_string (get_prop response ''from'')) then
           Inl (handleError (Exn Error (invalid_address_format ''from'')) errorType)
         else if get_prop response ''to'' \<noteq> JNull
                 \<and> \<not> test_hex_fixed 40 (to_string (get_prop response ''to'')) then
           Inl (handleError (Exn Error (invalid_address_format ''to'')) errorType)
         else if \<not> test_hex_quantity (to_string (get_prop response ''transactionIndex'')) then
           Inl (handleError (Exn Error ''Invalid transaction index format'') errorType)
         else Inr ())
      else Inr ())"

text \<open>The last check: \<open>if (!response.number && !response.hash && !response.transactionIndex)\<close>.\<close>

definition shape_check :: "jsval \<Rightarrow> string \<Rightarrow> thrown + unit" where
  "shape_check response errorType =
     (if \<not> truthy (get_prop response ''number'') \<and> \<not> truthy (get_prop response ''hash'')
          \<and> \<not> truthy (get_prop response ''transactionIndex'') then
        Inl (handleError (Exn Error ''Block or transaction response are invalid'') errorType)
      else Inr ())"

definition validateApiResponse :: "jsval \<Rightarrow> string \<Rightarrow> thrown + unit" where
  "validateApiResponse response errorType =
     (if \<not> truthy response then
        Inl (handleError (Exn Error ''Response is null or undefined'') errorType)
      else if truthy (get_prop response ''error'') then
        Inl (handleError
              (Exn Error
                (''RPC Error: '' @ to_string (get_prop (get_prop response ''error'') ''message'')))
              errorType)
      else
        and_then (block_format_checks response errorType)
          (and_then (transaction_format_checks response errorType)
             (shape_check response errorType)))"

section \<open>Promises and asynchronous actions\<close>

text \<open>
  A promise settles after some milliseconds, fulfilled with a value or rejected with a
  thrown value, or it never settles. An asynchronous action \<open>() => Promise<T>\<close> runs
  in a world \<open>'w\<close> (the node at the other end of the wire, the requests sent so far)
  and leaves a new world behind.
\<close>

datatype 'a settled = Fulfilled 'a | Rejected thrown

datatype 'a completion = Settles nat "'a settled" | Never

type_synonym ('w, 'a) action = "'w \<Rightarrow> 'a completion \<times> 'w"

text \<open>
  A synchronous continuation after an \<open>await\<close>: it runs on the fulfilled value, takes no
  time, and may throw.
\<close>

fun and_after :: "'a completion \<Rightarrow> ('a \<Rightarrow> thrown + 'b) \<Rightarrow> 'b completion" where
  "and_after Never f = Never"
| "and_after (Settles d (Rejected e)) f = Settles d (Rejected e)"
| "and_after (Settles d (Fulfilled v)) f =
     (case f v of Inl e \<Rightarrow> Settles d (Rejected e) | Inr y \<Rightarrow> Settles d (Fulfilled y))"

section \<open>apiRequestWithTimeout\<close>

text \<open>
  \<open>Promise.race\<close> of the action against a timer of \<open>timeout\<close> milliseconds. The action
  is started first, so it wins when it settles no later than the deadline; otherwise the
  timer rejects with \<open>API request timed out\<close>. The action is not cancelled: what it does
  to the world stays done. Whatever is caught, the action's own error or the timer's,
  goes through \<open>handleError\<close>.
\<close>

definition apiRequestWithTimeout ::
  "('w, 'a) action \<Rightarrow> nat \<Rightarrow> string \<Rightarrow> ('w, 'a) action" where
  "apiRequestWithTimeout action timeout errorType w =
     (case action w of
        (Settles d (Fulfilled result), w') \<Rightarrow>
          if d \<le> timeout then (Settles d (Fulfilled result), w')
          else (Settles timeout
                  (Rejected (handleError (Exn Error ''API request timed out'') errorType)), w')
      | (Settles d (Rejected error), w') \<Rightarrow>
          if d \<le> timeout then (Settles d (Rejected (handleError error errorType)), w')
          else (Settles timeout
                  (Rejected (handleError (Exn Error ''API request timed out'') errorType)), w')
      | (Never, w') \<Rightarrow>
          (Settles timeout
             (Rejected (handleError (Exn Error ''API request timed out'') errorType)), w'))"

section \<open>retryApiRequest\<close>

text \<open>
  The \<open>while (attempts < retries)\<close> loop, for a whole number of \<open>retries\<close>.
  \<open>elapsed\<close> is the time the earlier attempts took: the next attempt starts as soon as
  the last one has failed. An attempt that never settles leaves the loop waiting forever.
\<close>

function retry_loop ::
  "('w, 'a) action \<Rightarrow> nat \<Rightarrow> string \<Rightarrow> nat \<Rightarrow> nat \<Rightarrow> ('w, 'a) action" where
  "retry_loop action retries errorType attempts elapsed w =
     (if attempts < retries then
        (case action w of
           (Settles d (Fulfilled result), w') \<Rightarrow> (Settles (elapsed + d) (Fulfilled result), w')
         | (Settles d (Rejected error), w') \<Rightarrow>
             if attempts + 1 \<ge> retries then
               (Settles (elapsed + d) (Rejected (handleError error errorType)), w')
             else retry_loop action retries errorType (attempts + 1) (elapsed + d) w'
         | (Never, w') \<Rightarrow> (Never, w'))
      else
        (Settles elapsed (Rejected (handleError (Exn Error ''All retries failed'') errorType)), w))"
  by pat_completeness auto
termination
  by (relation "measure (\<lambda>(action, retries, errorType, attempts, elapsed, w). retries - attempts)")
     auto

declare retry_loop.simps [simp del]

definition retryApiRequest ::
  "('w, 'a) action \<Rightarrow> nat \<Rightarrow> string \<Rightarrow> ('w, 'a) action" where
  "retryApiRequest action retries errorType w = retry_loop action retries errorType 0 0 w"

section \<open>RpcFactory\<close>

text \<open>
  \<open>axios.post\<close> is the parameter \<open>post\<close>: given the URL and the request body, an action
  that is fulfilled with the decoded body (\<open>response.data\<close>) or rejected by the HTTP
  layer. Reading \<open>response.data.error\<close> throws a \<open>TypeError\<close> when the body is
  \<open>null\<close> or absent; the \<open>catch\<close> logs and rethrows what it caught.
\<close>

definition cannot_read :: "jsval \<Rightarrow> string \<Rightarrow> thrown" where
  "cannot_read v k =
     Exn TypeError
       (''Cannot read properties of '' @ to_string v @ '' (reading '' @ [CHR 0x27] @ k
          @ [CHR 0x27] @ '')'')"

definition nullish :: "jsval \<Rightarrow> bool" where
  "nullish v = (v = JNull \<or> v = JUndefined)"

definition requestBody :: "string \<Rightarrow> jsval list \<Rightarrow> int \<Rightarrow> jsval" where
  "requestBody method params request_id =
     JObj [(''jsonrpc'', JStr ''2.0''), (''method'', JStr method),
           (''params'', JArr params), (''id'', JNum request_id)]"

definition createRequest ::
  "(string \<Rightarrow> jsval \<Rightarrow> ('w, jsval) action) \<Rightarrow> string \<Rightarrow> jsval list \<Rightarrow> int \<Rightarrow> string
     \<Rightarrow> ('w, jsval) action" where
  "createRequest post method params request_id nodeUrl w =
     (case post nodeUrl (requestBody method params request_id) w of (response, w') \<Rightarrow>
           (and_after response
              (\<lambda>data.
                 if nullish data then Inl (cannot_read data ''error'')
                 else if truthy (get_prop data ''error'') then
                   Inl (Exn Error
                         (''RPC Error: '' @ to_string (get_prop (get_prop data ''error'') ''message'')))
                 else Inr data),
            w'))"

definition callRpcMethod ::
  "(string \<Rightarrow> jsval \<Rightarrow> ('w, jsval) action) \<Rightarrow> string \<Rightarrow> string \<Rightarrow> jsval list
     \<Rightarrow> ('w, jsval) action" where
  "callRpcMethod post nodeUrl method params w =
     (case createRequest post method params 1 nodeUrl w of (response, w') \<Rightarrow>
        (and_after response (\<lambda>data. Inr (get_prop data ''result'')), w'))"

section \<open>RpcAPIClient\<close>

text \<open>
  \<open>DEFAULT_TIMEOUT\<close> comes from a configuration module and is the parameter
  \<open>timeout\<close>. \<open>ErrorType.RPC\<close> is the string \<open>RPC\<close>. Each method awaits
  \<open>retryApiRequest\<close>, validates synchronously and returns what it fetched.
\<close>

definition validated :: "jsval \<Rightarrow> jsval \<Rightarrow> thrown + jsval" where
  "validated payload returned =
     (case validateApiResponse payload ''RPC'' of Inl e \<Rightarrow> Inl e | Inr u \<Rightarrow> Inr returned)"

definition RpcAPIClient_fetchBlockNumber ::
  "(string \<Rightarrow> jsval \<Rightarrow> ('w, jsval) action) \<Rightarrow> nat \<Rightarrow> string \<Rightarrow> ('w, jsval) action" where
  "RpcAPIClient_fetchBlockNumber post timeout nodeUrl w =
     (case retryApiRequest
             (apiRequestWithTimeout (callRpcMethod post nodeUrl ''eth_blockNumber'' [])
                timeout ''RPC'')
             2 ''RPC'' w
      of (settled, w') \<Rightarrow>
        (and_after settled
           (\<lambda>blockNumber. validated (JObj [(''number'', blockNumber)]) blockNumber), w'))"

definition RpcAPIClient_fetchBlockDetails ::
  "(string \<Rightarrow> jsval \<Rightarrow> ('w, jsval) action) \<Rightarrow> nat \<Rightarrow> string \<Rightarrow> jsval
     \<Rightarrow> ('w, jsval) action" where
  "RpcAPIClient_fetchBlockDetails post timeout nodeUrl blockNumber w =
     (case retryApiRequest
             (apiRequestWithTimeout
                (callRpcMethod post nodeUrl ''eth_getBlockByNumber'' [blockNumber, JBool False])
                timeout ''RPC'')
             2 ''RPC'' w
      of (settled, w') \<Rightarrow>
        (and_after settled (\<lambda>blockDetails. validated blockDetails blockDetails), w'))"

text \<open>
  \<open>fetchTransactionHash\<close> sends nothing: its action is \<open>async () =>
  blockDetails.transactions[0]\<close>, which settles at once.
\<close>

definition RpcAPIClient_fetchTransactionHash :: "nat \<Rightarrow> jsval \<Rightarrow> ('w, jsval) action" where
  "RpcAPIClient_fetchTransactionHash timeout blockDetails w =
     (if \<not> truthy blockDetails \<or> \<not> truthy (get_prop blockDetails ''transactions'')
          \<or> get_prop (get_prop blockDetails ''transactions'') ''length'' = JNum 0 then
        (Settles 0 (Rejected (Exn Error ''Block details or transactions are not available'')), w)
      else
        case retryApiRequest
               (apiRequestWithTimeout
                  (\<lambda>w. (Settles 0
                           (Fulfilled (first_element (get_prop blockDetails ''transactions''))), w))
                  timeout ''RPC'')
               2 ''RPC'' w
        of (settled, w') \<Rightarrow>
          (and_after settled
             (\<lambda>transactionHash. validated (JObj [(''hash'', transactionHash)]) transactionHash),
           w'))"

definition RpcAPIClient_fetchTransactionDetails ::
  "(string \<Rightarrow> jsval \<Rightarrow> ('w, jsval) action) \<Rightarrow> nat \<Rightarrow> string \<Rightarrow> jsval
     \<Rightarrow> ('w, jsval) action" where
  "RpcAPIClient_fetchTransactionDetails post timeout nodeUrl transactionHash w =
     (case retryApiRequest
             (apiRequestWithTimeout
                (callRpcMethod post nodeUrl ''eth_getTransactionByHash'' [transactionHash])
                timeout ''RPC'')
             2 ''RPC'' w
      of (settled, w') \<Rightarrow>
        (and_after settled
           (\<lambda>transactionDetails. validated transactionDetails transactionDetails), w'))"

section \<open>RpcTestScenarioBuilder\<close>

text \<open>
  The builder's fields; an \<open>RpcAPIClient\<close> is nothing but its \<open>nodeUrl\<close>, so
  \<open>apiClient\<close> is that string. The constructor sets the other three to \<open>null\<close>.
  A method returns how its promise settles, the builder as the method leaves it, and the
  world; a method that throws has assigned nothing.
\<close>

record builder =
  apiClient :: string
  blockNumber :: jsval
  blockDetails :: jsval
  transactionHash :: jsval

definition new_builder :: "string \<Rightarrow> builder" where
  "new_builder url =
     \<lparr>apiClient = url, blockNumber = JNull, blockDetails = JNull, transactionHash = JNull\<rparr>"

definition RpcTestScenarioBuilder_fetchBlockNumber ::
  "(string \<Rightarrow> jsval \<Rightarrow> ('w, jsval) action) \<Rightarrow> nat \<Rightarrow> builder \<Rightarrow> 'w
     \<Rightarrow> unit completion \<times> builder \<times> 'w" where
  "RpcTestScenarioBuilder_fetchBlockNumber post timeout this w =
     (case RpcAPIClient_fetchBlockNumber post timeout (apiClient this) w of
        (Settles d (Fulfilled v), w') \<Rightarrow> (Settles d (Fulfilled ()), this\<lparr>blockNumber := v\<rparr>, w')
      | (Settles d (Rejected e), w') \<Rightarrow> (Settles d (Rejected e), this, w')
      | (Never, w') \<Rightarrow> (Never, this, w'))"

definition RpcTestScenarioBuilder_fetchBlockDetails ::
  "(string \<Rightarrow> jsval \<Rightarrow> ('w, jsval) action) \<Rightarrow> nat \<Rightarrow> builder \<Rightarrow> 'w
     \<Rightarrow> unit completion \<times> builder \<times> 'w" where
  "RpcTestScenarioBuilder_fetchBlockDetails post timeout this w =
     (if \<not> truthy (blockNumber this) then
        (Settles 0 (Rejected (Exn Error ''Block number is not available'')), this, w)
      else
        case RpcAPIClient_fetchBlockDetails post timeout (apiClient this) (blockNumber this) w of
          (Settles d (Fulfilled v), w') \<Rightarrow>
            (Settles d (Fulfilled ()), this\<lparr>blockDetails := v\<rparr>, w')
        | (Settles d (Rejected e), w') \<Rightarrow> (Settles d (Rejected e), this, w')
        | (Never, w') \<Rightarrow> (Never, this, w'))"

definition MAX_RETRIES :: nat where
  "MAX_RETRIES = 3"

definition RETRY_DELAY :: nat where
  "RETRY_DELAY = 2000"

text \<open>
  The \<open>while (!this.blockDetails || !this.blockDetails.transactions.length)\<close> loop of
  \<open>fetchTransactionHash\<close>. Its body logs, waits \<open>RETRY_DELAY\<close> milliseconds and counts;
  it assigns no field and calls nothing, so every test of the condition reads the same
  \<open>blockDetails\<close>. Reading \<open>length\<close> of an absent \<open>transactions\<close> throws.
\<close>

function wait_for_transactions :: "jsval \<Rightarrow> nat \<Rightarrow> nat \<Rightarrow> unit completion" where
  "wait_for_transactions details retries elapsed =
     (if truthy details \<and> nullish (get_prop details ''transactions'') then
        Settles elapsed (Rejected (cannot_read (get_prop details ''transactions'') ''length''))
      else if \<not> truthy details
              \<or> \<not> truthy (get_prop (get_prop details ''transactions'') ''length'') then
        (if retries \<ge> MAX_RETRIES then
           Settles elapsed
             (Rejected
               (Exn Error ''Block details or transactions are not available after maximum retries''))
         else wait_for_transactions details (retries + 1) (elapsed + RETRY_DELAY))
      else Settles elapsed (Fulfilled ()))"
  by pat_completeness auto
termination
  by (relation "measure (\<lambda>(details, retries, elapsed). MAX_RETRIES - retries)") auto

declare wait_for_transactions.simps [simp del]

definition RpcTestScenarioBuilder_fetchTransactionHash ::
  "nat \<Rightarrow> builder \<Rightarrow> 'w \<Rightarrow> unit completion \<times> builder \<times> 'w" where
  "RpcTestScenarioBuilder_fetchTransactionHash timeout this w =
     (case wait_for_transactions (blockDetails this) 0 0 of
        Never \<Rightarrow> (Never, this, w)
      | Settles waited (Rejected e) \<Rightarrow> (Settles waited (Rejected e), this, w)
      | Settles waited (Fulfilled u) \<Rightarrow>
          (case RpcAPIClient_fetchTransactionHash timeout (blockDetails this) w of
             (Settles d (Fulfilled v), w') \<Rightarrow>
               (Settles (waited + d) (Fulfilled ()), this\<lparr>transactionHash := v\<rparr>, w')
           | (Settles d (Rejected e), w') \<Rightarrow> (Settles (waited + d) (Rejected e), this, w')
           | (Never, w') \<Rightarrow> (Never, this, w')))"

text \<open>\<open>fetchTransactionDetails\<close> returns the transaction and stores nothing.\<close>

definition RpcTestScenarioBuilder_fetchTransactionDetails ::
  "(string \<Rightarrow> jsval \<Rightarrow> ('w, jsval) action) \<Rightarrow> nat \<Rightarrow> builder \<Rightarrow> 'w
     \<Rightarrow> jsval completion \<times> builder \<times> 'w" where
  "RpcTestScenarioBuilder_fetchTransactionDetails post timeout this w =
     (if \<not> truthy (transactionHash this) then
        (Settles 0 (Rejected (Exn Error ''Transaction hash is not available'')), this, w)
      else
        case RpcAPIClient_fetchTransactionDetails post timeout (apiClient this)
               (transactionHash this) w of
          (settled, w') \<Rightarrow> (settled, this, w'))"

section \<open>Scripted actions\<close>

text \<open>
  An action whose behaviour is fixed in advance: its \<open>i\<close>-th invocation (from 0) settles
  as \<open>outcomes i\<close>. The world is the number of invocations made so far, so the world
  an operation leaves behind tells how often it invoked the action.
\<close>

definition scripted :: "(nat \<Rightarrow> 'a completion) \<Rightarrow> (nat, 'a) action" where
  "scripted outcomes calls = (outcomes calls, calls + 1)"

definition script_of :: "'a completion list \<Rightarrow> nat \<Rightarrow> 'a completion" where
  "script_of cs i = (if i < length cs then cs ! i else Never)"

fun duration :: "'a completion \<Rightarrow> nat" where
  "duration (Settles d r) = d"
| "duration Never = 0"

fun settles_within :: "nat \<Rightarrow> 'a completion \<Rightarrow> bool" where
  "settles_within t (Settles d r) = (d \<le> t)"
| "settles_within t Never = False"

text \<open>An action that fails after 10 ms with a plain \<open>Error\<close>, every time.\<close>

definition always_boom :: "nat \<Rightarrow> jsval completion" where
  "always_boom i = Settles 10 (Rejected (Exn Error ''boom''))"

text \<open>
  A node whose first answer is a network error after 80 ms and whose second answer is
  block number \<open>0x10\<close>, again after 80 ms.
\<close>

definition flaky_node :: "string \<Rightarrow> jsval \<Rightarrow> (nat, jsval) action" where
  "flaky_node url body =
     scripted (script_of
       [Settles 80 (Rejected (Exn Error ''Network Error'')),
        Settles 80 (Fulfilled
          (JObj [(''jsonrpc'', JStr ''2.0''), (''id'', JNum 1), (''result'', JStr ''0x10'')]))])"

text \<open>
  The composition as the specification words it, for comparison with the client's:
  \<open>TimeoutExecutor(RetryExecutor(Transport.send), retries=2) \<rightarrow> ResponseValidator\<close>,
  the timeout around the whole retry loop.
\<close>

definition spec_fetchBlockNumber ::
  "(string \<Rightarrow> jsval \<Rightarrow> ('w, jsval) action) \<Rightarrow> nat \<Rightarrow> string \<Rightarrow> ('w, jsval) action" where
  "spec_fetchBlockNumber post timeout url w =
     (case apiRequestWithTimeout
             (retryApiRequest (callRpcMethod post url ''eth_blockNumber'' []) 2 ''RPC'')
             timeout ''RPC'' w
      of (settled, w') \<Rightarrow>
        (and_after settled
           (\<lambda>blockNumber. validated (JObj [(''number'', blockNumber)]) blockNumber), w'))"

text \<open>A 32-byte hash and a block whose transaction list is empty.\<close>

definition valid_hash :: string where
  "valid_hash = ''0x'' @ replicate 64 (CHR ''a'')"

definition empty_block :: jsval where
  "empty_block =
     JObj [(''number'', JStr ''0x10''), (''hash'', JStr valid_hash), (''transactions'', JArr [])]"

text \<open>A node that answers every request with the same body after 5 ms.\<close>

definition answering_node :: "jsval \<Rightarrow> string \<Rightarrow> jsval \<Rightarrow> (nat, jsval) action" where
  "answering_node data url body = scripted (\<lambda>i. Settles 5 (Fulfilled data))"

text \<open>An action that fails twice, 3 ms each time, and then succeeds after 4 ms.\<close>

definition fails_twice :: "nat \<Rightarrow> jsval completion" where
  "fails_twice i =
     (if i < 2 then Settles 3 (Rejected (Exn Error ''busy''))
      else Settles 4 (Fulfilled (JStr ''0x10'')))"

text \<open>
  A node that answers the first request with block number \<open>0x10\<close>, the second with
  \<open>empty_block\<close>, and every later one with the same block holding one transaction.
\<close>

definition refilling_node :: "string \<Rightarrow> jsval \<Rightarrow> (nat, jsval) action" where
  "refilling_node url body =
     scripted (\<lambda>i.
       if i = 0 then Settles 5 (Fulfilled (JObj [(''result'', JStr ''0x10'')]))
       else if i = 1 then Settles 5 (Fulfilled (JObj [(''result'', empty_block)]))
       else Settles 5 (Fulfilled (JObj [(''result'',
              JObj [(''number'', JStr ''0x10''), (''hash'', JStr valid_hash),
                    (''transactions'', JArr [JStr valid_hash])])])))"

text \<open>
  A block with one transaction, and a node whose seven answers are, in order: an error
  and then that block, 80 ms each; no answer at all and then the block after 5 ms; two
  errors, after 7 and 8 ms; and a body without \<open>result\<close> after 5 ms.
\<close>

definition full_block :: jsval where
  "full_block =
     JObj [(''number'', JStr ''0x10''), (''hash'', JStr valid_hash),
           (''transactions'', JArr [JStr valid_hash])]"

definition rehearsal_node :: "string \<Rightarrow> jsval \<Rightarrow> (nat, jsval) action" where
  "rehearsal_node url body =
     scripted (script_of
       [Settles 80 (Rejected (Exn Error ''Network Error'')),
        Settles 80 (Fulfilled (JObj [(''result'', full_block)])),
        Never,
        Settles 5 (Fulfilled (JObj [(''result'', full_block)])),
        Settles 7 (Rejected (Exn Error ''Network Error'')),
        Settles 8 (Rejected (Exn Error ''socket hang up'')),
        Settles 5 (Fulfilled (JObj [(''jsonrpc'', JStr ''2.0''), (''id'', JNum 1)]))])"

section \<open>Facts about the retry loop\<close>

lemma retry_loop_exhausted:
  "\<not> attempts < retries \<Longrightarrow>
   retry_loop action retries errorType attempts elapsed w =
     (Settles elapsed (Rejected (handleError (Exn Error ''All retries failed'') errorType)), w)"
  by (subst retry_loop.simps) simp

lemma retry_loop_fulfilled:
  "attempts < retries \<Longrightarrow> action w = (Settles d (Fulfilled v), w') \<Longrightarrow>
   retry_loop action retries errorType attempts elapsed w = (Settles (elapsed + d) (Fulfilled v), w')"
  by (subst retry_loop.simps) simp

lemma retry_loop_last_rejected:
  "attempts < retries \<Longrightarrow> retries \<le> attempts + 1 \<Longrightarrow> action w = (Settles d (Rejected e), w') \<Longrightarrow>
   retry_loop action retries errorType attempts elapsed w =
     (Settles (elapsed + d) (Rejected (handleError e errorType)), w')"
  by (subst retry_loop.simps) simp

lemma retry_loop_rejected_again:
  "attempts + 1 < retries \<Longrightarrow> action w = (Settles d (Rejected e), w') \<Longrightarrow>
   retry_loop action retries errorType attempts elapsed w =
     retry_loop action retries errorType (attempts + 1) (elapsed + d) w'"
  by (subst retry_loop.simps) simp

lemma retry_loop_never:
  "attempts < retries \<Longrightarrow> action w = (Never, w') \<Longrightarrow>
   retry_loop action retries errorType attempts elapsed w = (Never, w')"
  by (subst retry_loop.simps) simp

lemma retry_loop_fail_then_ok:
  "attempts + k < retries \<Longrightarrow>
   (\<forall>i<k. \<exists>d e. outcomes (calls + i) = Settles d (Rejected e)) \<Longrightarrow>
   outcomes (calls + k) = Settles d (Fulfilled v) \<Longrightarrow>
   retry_loop (scripted outcomes) retries errorType attempts elapsed calls =
     (Settles (elapsed + (\<Sum>i<k. duration (outcomes (calls + i))) + d) (Fulfilled v),
      calls + k + 1)"
proof (induction k arbitrary: attempts elapsed calls)
  case 0
  then show ?case
    by (simp add: retry_loop_fulfilled [where w' = "calls + 1"] scripted_def)
next
  case (Suc k)
  from Suc.prems(2) obtain d0 e0 where first: "outcomes calls = Settles d0 (Rejected e0)"
    by force
  have rest: "\<forall>i<k. \<exists>d e. outcomes (Suc calls + i) = Settles d (Rejected e)"
    using Suc.prems(2) by (metis Suc_less_eq add_Suc_shift)
  have step: "retry_loop (scripted outcomes) retries errorType attempts elapsed calls =
      retry_loop (scripted outcomes) retries errorType (attempts + 1) (elapsed + d0) (Suc calls)"
    using Suc.prems(1) first
    by (intro retry_loop_rejected_again) (simp_all add: scripted_def)
  have "retry_loop (scripted outcomes) retries errorType (attempts + 1) (elapsed + d0) (Suc calls) =
      (Settles (elapsed + d0 + (\<Sum>i<k. duration (outcomes (Suc calls + i))) + d) (Fulfilled v),
       Suc calls + k + 1)"
    using Suc.prems(1,3) rest by (intro Suc.IH) simp_all
  moreover have "(\<Sum>i<Suc k. duration (outcomes (calls + i))) =
      d0 + (\<Sum>i<k. duration (outcomes (Suc calls + i)))"
    using first by (subst sum.lessThan_Suc_shift) simp
  ultimately show ?case
    using step by (simp del: sum.lessThan_Suc)
qed

lemma retry_loop_all_fail:
  "attempts + k < retries \<Longrightarrow> retries \<le> attempts + k + 1 \<Longrightarrow>
   (\<forall>i<k. \<exists>d e. outcomes (calls + i) = Settles d (Rejected e)) \<Longrightarrow>
   outcomes (calls + k) = Settles d (Rejected e) \<Longrightarrow>
   retry_loop (scripted outcomes) retries errorType attempts elapsed calls =
     (Settles (elapsed + (\<Sum>i<k. duration (outcomes (calls + i))) + d)
        (Rejected (handleError e errorType)),
      calls + k + 1)"
proof (induction k arbitrary: attempts elapsed calls)
  case 0
  then show ?case
    by (simp add: retry_loop_last_rejected [where w' = "calls + 1"] scripted_def)
next
  case (Suc k)
  from Suc.prems(3) obtain d0 e0 where first: "outcomes calls = Settles d0 (Rejected e0)"
    by force
  have rest: "\<forall>i<k. \<exists>d e. outcomes (Suc calls + i) = Settles d (Rejected e)"
    using Suc.prems(3) by (metis Suc_less_eq add_Suc_shift)
  have step: "retry_loop (scripted outcomes) retries errorType attempts elapsed calls =
      retry_loop (scripted outcomes) retries errorType (attempts + 1) (elapsed + d0) (Suc calls)"
    using Suc.prems(1) first
    by (intro retry_loop_rejected_again) (simp_all add: scripted_def)
  have "retry_loop (scripted outcomes) retries errorType (attempts + 1) (elapsed + d0) (Suc calls) =
      (Settles (elapsed + d0 + (\<Sum>i<k. duration (outcomes (Suc calls + i))) + d)
         (Rejected (handleError e errorType)),
       Suc calls + k + 1)"
    using Suc.prems(1,2,4) rest by (intro Suc.IH) simp_all
  moreover have "(\<Sum>i<Suc k. duration (outcomes (calls + i))) =
      d0 + (\<Sum>i<k. duration (outcomes (Suc calls + i)))"
    using first by (subst sum.lessThan_Suc_shift) simp
  ultimately show ?case
    using step by (simp del: sum.lessThan_Suc)
qed

lemma settles_within_mono: "settles_within t c \<Longrightarrow> t \<le> t' \<Longrightarrow> settles_within t' c"
  by (cases c) auto

lemma settles_within_and_after: "settles_within t c \<Longrightarrow> settles_within t (and_after c f)"
  by (cases "(c, f)" rule: and_after.cases) (auto split: sum.splits)

lemma apiRequestWithTimeout_settles:
  "settles_within timeout (fst (apiRequestWithTimeout action timeout errorType w))"
proof (cases "action w")
  case (Pair c w')
  then show ?thesis
  proof (cases c)
    case (Settles d r)
    with Pair show ?thesis
      by (cases r) (simp_all add: apiRequestWithTimeout_def)
  next
    case Never
    with Pair show ?thesis
      by (simp add: apiRequestWithTimeout_def)
  qed
qed

lemma retry_loop_settles:
  assumes bounded: "\<And>w. settles_within T (fst (action w))"
  shows "retries - attempts = k \<Longrightarrow>
         settles_within (elapsed + k * T)
           (fst (retry_loop action retries errorType attempts elapsed w))"
proof (induction k arbitrary: attempts elapsed w)
  case 0
  then show ?case
    by (simp add: retry_loop_exhausted)
next
  case (Suc k)
  then have running: "attempts < retries" by simp
  obtain c w' where aw: "action w = (c, w')"
    by (cases "action w")
  with bounded [of w] obtain d r where c: "c = Settles d r" and d: "d \<le> T"
    by (cases c) auto
  show ?case
  proof (cases r)
    case (Fulfilled v)
    with running aw c d show ?thesis
      by (simp add: retry_loop_fulfilled)
  next
    case (Rejected e)
    show ?thesis
    proof (cases "retries \<le> attempts + 1")
      case True
      with running aw c d Rejected show ?thesis
        by (simp add: retry_loop_last_rejected)
    next
      case False
      then have again: "retry_loop action retries errorType attempts elapsed w =
          retry_loop action retries errorType (attempts + 1) (elapsed + d) w'"
        using aw c Rejected by (intro retry_loop_rejected_again) simp_all
      have later: "settles_within (elapsed + d + k * T)
          (fst (retry_loop action retries errorType (attempts + 1) (elapsed + d) w'))"
        using Suc.prems by (intro Suc.IH) simp
      have "elapsed + d + k * T \<le> elapsed + Suc k * T"
        using d by simp
      with later show ?thesis
        unfolding again by (rule settles_within_mono)
    qed
  qed
qed

lemma retried_with_timeout_settles:
  "settles_within (2 * timeout)
     (fst (retryApiRequest (apiRequestWithTimeout action timeout ty) 2 ty' w))"
  using retry_loop_settles [of timeout "apiRequestWithTimeout action timeout ty" 2 0 2 0 ty' w]
  by (simp add: retryApiRequest_def apiRequestWithTimeout_settles)

lemma fetchBlockNumber_settles:
  "settles_within (2 * timeout) (fst (RpcAPIClient_fetchBlockNumber post timeout url w))"
  unfolding RpcAPIClient_fetchBlockNumber_def split_beta fst_conv
  by (intro settles_within_and_after retried_with_timeout_settles)

lemma fetchBlockDetails_settles:
  "settles_within (2 * timeout) (fst (RpcAPIClient_fetchBlockDetails post timeout url number w))"
  unfolding RpcAPIClient_fetchBlockDetails_def split_beta fst_conv
  by (intro settles_within_and_after retried_with_timeout_settles)

lemma fetchTransactionHash_settles:
  "settles_within (2 * timeout) (fst (RpcAPIClient_fetchTransactionHash timeout details w))"
proof (cases "\<not> truthy details \<or> \<not> truthy (get_prop details ''transactions'')
    \<or> get_prop (get_prop details ''transactions'') ''length'' = JNum 0")
  case True
  then show ?thesis
    unfolding RpcAPIClient_fetchTransactionHash_def by simp
next
  case False
  then show ?thesis
    unfolding RpcAPIClient_fetchTransactionHash_def split_beta if_not_P [OF False] fst_conv
    by (intro settles_within_and_after retried_with_timeout_settles)
qed

lemma fetchTransactionDetails_settles:
  "settles_within (2 * timeout)
     (fst (RpcAPIClient_fetchTransactionDetails post timeout url hash w))"
  unfolding RpcAPIClient_fetchTransactionDetails_def split_beta fst_conv
  by (intro settles_within_and_after retried_with_timeout_settles)

section \<open>Two attempts, each under the timeout\<close>

lemma timed_fulfilled:
  "call w = (Settles d (Fulfilled v), w') \<Longrightarrow> d \<le> timeout \<Longrightarrow>
   apiRequestWithTimeout call timeout errorType w = (Settles d (Fulfilled v), w')"
  by (simp add: apiRequestWithTimeout_def)

lemma timed_rejected:
  "call w = (Settles d (Rejected e), w') \<Longrightarrow> d \<le> timeout \<Longrightarrow>
   apiRequestWithTimeout call timeout errorType w =
     (Settles d (Rejected (handleError e errorType)), w')"
  by (simp add: apiRequestWithTimeout_def)

lemma timed_out:
  "call w = (c, w') \<Longrightarrow> \<not> settles_within timeout c \<Longrightarrow>
   apiRequestWithTimeout call timeout errorType w =
     (Settles timeout (Rejected (handleError (Exn Error ''API request timed out'') errorType)), w')"
  by (cases c) (auto simp add: apiRequestWithTimeout_def split: settled.splits)

lemma handleError_RPC: "handleError e ''RPC'' = Exn RPCError (message_of e)"
  by (simp add: handleError_def)

lemma attempts_fulfilled_at_once:
  assumes "call w = (Settles d1 (Fulfilled v), w1)" and "d1 \<le> timeout"
  shows "retryApiRequest (apiRequestWithTimeout call timeout ''RPC'') 2 ''RPC'' w =
           (Settles d1 (Fulfilled v), w1)"
  using assms timed_fulfilled [of call w d1 v w1 timeout "''RPC''"]
  by (simp add: retryApiRequest_def retry_loop_fulfilled)

lemma attempts_rejected_then_fulfilled:
  assumes "call w = (Settles d1 (Rejected e1), w1)" and "d1 \<le> timeout"
    and "call w1 = (Settles d2 (Fulfilled v), w2)" and "d2 \<le> timeout"
  shows "retryApiRequest (apiRequestWithTimeout call timeout ''RPC'') 2 ''RPC'' w =
           (Settles (d1 + d2) (Fulfilled v), w2)"
proof -
  have "retry_loop (apiRequestWithTimeout call timeout ''RPC'') 2 ''RPC'' 0 0 w =
      retry_loop (apiRequestWithTimeout call timeout ''RPC'') 2 ''RPC'' (0 + 1) (0 + d1) w1"
    using assms timed_rejected [of call w d1 e1 w1 timeout "''RPC''"]
    by (intro retry_loop_rejected_again) simp_all
  also have "\<dots> = (Settles (0 + d1 + d2) (Fulfilled v), w2)"
    using assms timed_fulfilled [of call w1 d2 v w2 timeout "''RPC''"]
    by (intro retry_loop_fulfilled) simp_all
  finally show ?thesis
    by (simp add: retryApiRequest_def)
qed

lemma attempts_timed_out_then_fulfilled:
  assumes "call w = (c1, w1)" and "\<not> settles_within timeout c1"
    and "call w1 = (Settles d2 (Fulfilled v), w2)" and "d2 \<le> timeout"
  shows "retryApiRequest (apiRequestWithTimeout call timeout ''RPC'') 2 ''RPC'' w =
           (Settles (timeout + d2) (Fulfilled v), w2)"
proof -
  have "retry_loop (apiRequestWithTimeout call timeout ''RPC'') 2 ''RPC'' 0 0 w =
      retry_loop (apiRequestWithTimeout call timeout ''RPC'') 2 ''RPC'' (0 + 1) (0 + timeout) w1"
    using assms timed_out [of call w c1 w1 timeout "''RPC''"]
    by (intro retry_loop_rejected_again) simp_all
  also have "\<dots> = (Settles (0 + timeout + d2) (Fulfilled v), w2)"
    using assms timed_fulfilled [of call w1 d2 v w2 timeout "''RPC''"]
    by (intro retry_loop_fulfilled) simp_all
  finally show ?thesis
    by (simp add: retryApiRequest_def)
qed

lemma attempts_rejected_twice:
  assumes "call w = (Settles d1 (Rejected e1), w1)" and "d1 \<le> timeout"
    and "call w1 = (Settles d2 (Rejected e2), w2)" and "d2 \<le> timeout"
  shows "retryApiRequest (apiRequestWithTimeout call timeout ''RPC'') 2 ''RPC'' w =
           (Settles (d1 + d2) (Rejected (Exn RPCError (message_of e2))), w2)"
proof -
  have "retry_loop (apiRequestWithTimeout call timeout ''RPC'') 2 ''RPC'' 0 0 w =
      retry_loop (apiRequestWithTimeout call timeout ''RPC'') 2 ''RPC'' (0 + 1) (0 + d1) w1"
    using assms timed_rejected [of call w d1 e1 w1 timeout "''RPC''"]
    by (intro retry_loop_rejected_again) simp_all
  also have "\<dots> = (Settles (0 + d1 + d2)
      (Rejected (handleError (handleError e2 ''RPC'') ''RPC'')), w2)"
    using assms timed_rejected [of call w1 d2 e2 w2 timeout "''RPC''"]
    by (intro retry_loop_last_rejected) simp_all
  finally show ?thesis
    by (simp add: retryApiRequest_def handleError_RPC)
qed

lemma fetchBlockNumber_composition:
  "(callRpcMethod post url ''eth_blockNumber'' [] w = (Settles d1 (Rejected e1), w1)
      \<and> d1 \<le> timeout
      \<and> callRpcMethod post url ''eth_blockNumber'' [] w1 = (Settles d2 (Fulfilled v), w2)
      \<and> d2 \<le> timeout
      \<and> validateApiResponse (JObj [(''number'', v)]) ''RPC'' = Inr () \<longrightarrow>
    RpcAPIClient_fetchBlockNumber post timeout url w = (Settles (d1 + d2) (Fulfilled v), w2))
   \<and> (callRpcMethod post url ''eth_blockNumber'' [] w = (c1, w1)
      \<and> \<not> settles_within timeout c1
      \<and> callRpcMethod post url ''eth_blockNumber'' [] w1 = (Settles d2 (Fulfilled v), w2)
      \<and> d2 \<le> timeout
      \<and> validateApiResponse (JObj [(''number'', v)]) ''RPC'' = Inr () \<longrightarrow>
    RpcAPIClient_fetchBlockNumber post timeout url w
      = (Settles (timeout + d2) (Fulfilled v), w2))
   \<and> (callRpcMethod post url ''eth_blockNumber'' [] w = (Settles d1 (Rejected e1), w1)
      \<and> d1 \<le> timeout
      \<and> callRpcMethod post url ''eth_blockNumber'' [] w1 = (Settles d2 (Rejected e2), w2)
      \<and> d2 \<le> timeout \<longrightarrow>
    RpcAPIClient_fetchBlockNumber post timeout url w
      = (Settles (d1 + d2) (Rejected (Exn RPCError (message_of e2))), w2))
   \<and> (callRpcMethod post url ''eth_blockNumber'' [] w = (Settles d1 (Fulfilled v), w1)
      \<and> d1 \<le> timeout
      \<and> validateApiResponse (JObj [(''number'', v)]) ''RPC'' = Inl e \<longrightarrow>
    RpcAPIClient_fetchBlockNumber post timeout url w = (Settles d1 (Rejected e), w1))"
  by (simp add: RpcAPIClient_fetchBlockNumber_def validated_def attempts_fulfilled_at_once
        attempts_rejected_then_fulfilled attempts_timed_out_then_fulfilled
        attempts_rejected_twice)

lemma fetchBlockDetails_composition:
  "(callRpcMethod post url ''eth_getBlockByNumber'' [number, JBool False] w = (Settles d1 (Rejected e1), w1)
      \<and> d1 \<le> timeout
      \<and> callRpcMethod post url ''eth_getBlockByNumber'' [number, JBool False] w1 = (Settles d2 (Fulfilled v), w2)
      \<and> d2 \<le> timeout
      \<and> validateApiResponse v ''RPC'' = Inr () \<longrightarrow>
    RpcAPIClient_fetchBlockDetails post timeout url number w = (Settles (d1 + d2) (Fulfilled v), w2))
   \<and> (callRpcMethod post url ''eth_getBlockByNumber'' [number, JBool False] w = (c1, w1)
      \<and> \<not> settles_within timeout c1
      \<and> callRpcMethod post url ''eth_getBlockByNumber'' [number, JBool False] w1 = (Settles d2 (Fulfilled v), w2)
      \<and> d2 \<le> timeout
      \<and> validateApiResponse v ''RPC'' = Inr () \<longrightarrow>
    RpcAPIClient_fetchBlockDetails post timeout url number w = (Settles (timeout + d2) (Fulfilled v), w2))
   \<and> (callRpcMethod post url ''eth_getBlockByNumber'' [number, JBool False] w = (Settles d1 (Rejected e1), w1)
      \<and> d1 \<le> timeout
      \<and> callRpcMethod post url ''eth_getBlockByNumber'' [number, JBool False] w1 = (Settles d2 (Rejected e2), w2)
      \<and> d2 \<le> timeout \<longrightarrow>
    RpcAPIClient_fetchBlockDetails post timeout url number w = (Settles (d1 + d2) (Rejected (Exn RPCError (message_of e2))), w2))
   \<and> (callRpcMethod post url ''eth_getBlockByNumber'' [number, JBool False] w = (Settles d1 (Fulfilled v), w1)
      \<and> d1 \<le> timeout
      \<and> validateApiResponse v ''RPC'' = Inl e \<longrightarrow>
    RpcAPIClient_fetchBlockDetails post timeout url number w = (Settles d1 (Rejected e), w1))"
  by (simp add: RpcAPIClient_fetchBlockDetails_def validated_def attempts_fulfilled_at_once
        attempts_rejected_then_fulfilled attempts_timed_out_then_fulfilled
        attempts_rejected_twice)

lemma fetchTransactionDetails_composition:
  "(callRpcMethod post url ''eth_getTransactionByHash'' [hash] w = (Settles d1 (Rejected e1), w1)
      \<and> d1 \<le> timeout
      \<and> callRpcMethod post url ''eth_getTransactionByHash'' [hash] w1 = (Settles d2 (Fulfilled v), w2)
      \<and> d2 \<le> timeout
      \<and> validateApiResponse v ''RPC'' = Inr () \<longrightarrow>
    RpcAPIClient_fetchTransactionDetails post timeout url hash w = (Settles (d1 + d2) (Fulfilled v), w2))
   \<and> (callRpcMethod post url ''eth_getTransactionByHash'' [hash] w = (c1, w1)
      \<and> \<not> settles_within timeout c1
      \<and> callRpcMethod post url ''eth_getTransactionByHash'' [hash] w1 = (Settles d2 (Fulfilled v), w2)
      \<and> d2 \<le> timeout
      \<and> validateApiResponse v ''RPC'' = Inr () \<longrightarrow>
    RpcAPIClient_fetchTransactionDetails post timeout url hash w = (Settles (timeout + d2) (Fulfilled v), w2))
   \<and> (callRpcMethod post url ''eth_getTransactionByHash'' [hash] w = (Settles d1 (Rejected e1), w1)
      \<and> d1 \<le> timeout
      \<and> callRpcMethod post url ''eth_getTransactionByHash'' [hash] w1 = (Settles d2 (Rejected e2), w2)
      \<and> d2 \<le> timeout \<longrightarrow>
    RpcAPIClient_fetchTransactionDetails post timeout url hash w = (Settles (d1 + d2) (Rejected (Exn RPCError (message_of e2))), w2))
   \<and> (callRpcMethod post url ''eth_getTransactionByHash'' [hash] w = (Settles d1 (Fulfilled v), w1)
      \<and> d1 \<le> timeout
      \<and> validateApiResponse v ''RPC'' = Inl e \<longrightarrow>
    RpcAPIClient_fetchTransactionDetails post timeout url hash w = (Settles d1 (Rejected e), w1))"
  by (simp add: RpcAPIClient_fetchTransactionDetails_def validated_def attempts_fulfilled_at_once
        attempts_rejected_then_fulfilled attempts_timed_out_then_fulfilled
        attempts_rejected_twice)

lemma fetchTransactionHash_composition:
  "(\<not> truthy details \<or> \<not> truthy (get_prop details ''transactions'')
      \<or> get_prop (get_prop details ''transactions'') ''length'' = JNum 0 \<longrightarrow>
    RpcAPIClient_fetchTransactionHash timeout details w
      = (Settles 0 (Rejected (Exn Error ''Block details or transactions are not available'')), w))
   \<and> (truthy details \<and> truthy (get_prop details ''transactions'')
      \<and> get_prop (get_prop details ''transactions'') ''length'' \<noteq> JNum 0 \<longrightarrow>
    RpcAPIClient_fetchTransactionHash timeout details w
      = (if truthy (first_element (get_prop details ''transactions'')) then
           Settles 0 (Fulfilled (first_element (get_prop details ''transactions'')))
         else
           Settles 0 (Rejected (Exn RPCError ''Block or transaction response are invalid'')), w))"
proof -
  have local: "retryApiRequest
      (apiRequestWithTimeout (\<lambda>w. (Settles 0 (Fulfilled x), w)) timeout ''RPC'') 2 ''RPC'' w
      = (Settles 0 (Fulfilled x), w)" for x :: jsval
    using attempts_fulfilled_at_once [of "\<lambda>w. (Settles 0 (Fulfilled x), w)" w 0 x w timeout]
    by simp
  show ?thesis
    by (simp add: RpcAPIClient_fetchTransactionHash_def local validated_def
          validateApiResponse_def block_format_checks_def transaction_format_checks_def
          shape_check_def and_then_def handleError_def)
qed

section \<open>Facts about the validator\<close>

lemma test_hex_fixed_truthy: "test_hex_fixed n s \<Longrightarrow> s \<noteq> []"
  by (cases s) auto

lemma test_hex_quantity_truthy: "test_hex_quantity s \<Longrightarrow> s \<noteq> []"
  by (cases s) auto

lemma get_prop_nullish: "nullish v \<Longrightarrow> get_prop v k = JUndefined"
  by (auto simp: nullish_def)

text \<open>
  What the transaction block does once it is entered, that is for a payload whose
  \<open>transactionIndex\<close>, \<open>from\<close> and \<open>to\<close> are non-empty strings.
\<close>

lemma transaction_checks_on_strings:
  assumes "i \<noteq> []" and "f \<noteq> []" and "t \<noteq> []"
  shows "validateApiResponse
           (JObj [(''transactionIndex'', JStr i), (''from'', JStr f), (''to'', JStr t)]) errorType =
         (if \<not> test_hex_fixed 40 f then
            Inl (handleError (Exn Error (invalid_address_format ''from'')) errorType)
          else if \<not> test_hex_fixed 40 t then
            Inl (handleError (Exn Error (invalid_address_format ''to'')) errorType)
          else if \<not> test_hex_quantity i then
            Inl (handleError (Exn Error ''Invalid transaction index format'') errorType)
          else Inr ())"
  using assms
  by (simp add: validateApiResponse_def block_format_checks_def transaction_format_checks_def
        shape_check_def and_then_def)

section \<open>A scenario on the refilling node\<close>

lemma valid_hash_ok: "test_hex_fixed 64 valid_hash"
  by (simp add: valid_hash_def is_hex_digit_def list_all_iff)

lemma valid_hash_truthy: "valid_hash \<noteq> []"
  by (simp add: valid_hash_def)

lemma scenario_block_number:
  "RpcTestScenarioBuilder_fetchBlockNumber refilling_node 100 (new_builder ''node'') 0
     = (Settles 5 (Fulfilled ()), (new_builder ''node'')\<lparr>blockNumber := JStr ''0x10''\<rparr>, 1)"
  by (simp add: RpcTestScenarioBuilder_fetchBlockNumber_def RpcAPIClient_fetchBlockNumber_def
        retryApiRequest_def retry_loop.simps apiRequestWithTimeout_def callRpcMethod_def
        createRequest_def refilling_node_def scripted_def nullish_def new_builder_def
        validated_def validateApiResponse_def block_format_checks_def
        transaction_format_checks_def shape_check_def and_then_def)

lemma scenario_block_details:
  "RpcTestScenarioBuilder_fetchBlockDetails refilling_node 100
       ((new_builder ''node'')\<lparr>blockNumber := JStr ''0x10''\<rparr>) 1
     = (Settles 5 (Fulfilled ()),
        (new_builder ''node'')\<lparr>blockNumber := JStr ''0x10'', blockDetails := empty_block\<rparr>, 2)"
  by (simp add: RpcTestScenarioBuilder_fetchBlockDetails_def RpcAPIClient_fetchBlockDetails_def
        retryApiRequest_def retry_loop.simps apiRequestWithTimeout_def callRpcMethod_def
        createRequest_def refilling_node_def scripted_def nullish_def new_builder_def
        validated_def validateApiResponse_def block_format_checks_def
        transaction_format_checks_def shape_check_def and_then_def empty_block_def
        valid_hash_ok valid_hash_truthy is_hex_digit_def)

lemma scenario_next_answer:
  "callRpcMethod refilling_node ''node'' ''eth_getBlockByNumber'' [JStr ''0x10'', JBool False] 2
     = (Settles 5
          (Fulfilled (JObj [(''number'', JStr ''0x10''), (''hash'', JStr valid_hash),
                            (''transactions'', JArr [JStr valid_hash])])), 3)"
  by (simp add: callRpcMethod_def createRequest_def refilling_node_def scripted_def nullish_def)

section \<open>The claims\<close>

text \<open>
  C1, as the specification states it: each client operation is the timeout executor
  around the retry executor around the transport call, so that one timeout budget bounds
  the whole retry loop. The client nests them the other way round. Against a node whose
  first answer is an error after 80 ms and whose second is a block number after another
  80 ms, with a timeout of 100 ms, \<open>fetchBlockNumber\<close> returns the block number after
  160 ms, where the composition of the specification times out at 100 ms.
\<close>

theorem composition_counterexample:
  "RpcAPIClient_fetchBlockNumber flaky_node 100 ''node'' 0
     = (Settles 160 (Fulfilled (JStr ''0x10'')), 2)
   \<and> spec_fetchBlockNumber flaky_node 100 ''node'' 0
     = (Settles 100 (Rejected (Exn RPCError ''API request timed out'')), 2)"
  by (simp add: RpcAPIClient_fetchBlockNumber_def spec_fetchBlockNumber_def
        retryApiRequest_def retry_loop.simps apiRequestWithTimeout_def callRpcMethod_def
        createRequest_def flaky_node_def scripted_def script_of_def nullish_def handleError_def
        validated_def validateApiResponse_def block_format_checks_def
        transaction_format_checks_def shape_check_def and_then_def)

text \<open>
  C1, amended: each client operation is the retry executor (2 attempts) around the timeout
  executor around the call, followed by validation. For \<open>fetchBlockNumber\<close>,
  \<open>fetchBlockDetails\<close> and \<open>fetchTransactionDetails\<close>, with the transport call as
  the action: when the first call is rejected after \<open>d1\<close> and the second fulfilled after
  \<open>d2\<close>, both in time, the operation returns the validated value after \<open>d1 + d2\<close>,
  however that sum compares to the timeout; when the first call has not settled by the
  deadline, the second starts at the deadline; when both calls are rejected, the operation
  fails as an \<open>RPCError\<close> with the second call's message and makes no third call; and
  when the first call is fulfilled in time with a value that the validator refuses, the
  operation fails with the validator's error and makes no second call.
  \<open>fetchTransactionHash\<close> sends nothing: it fails at once on a missing or empty
  transaction list, and otherwise returns the first transaction if it is truthy and fails
  validation if not. The timeout bounds every single attempt, so each of the four
  operations settles within twice the timeout, whatever the node does.
\<close>

theorem client_operations_composition:
  "((callRpcMethod post url ''eth_blockNumber'' [] w = (Settles d1 (Rejected e1), w1)
      \<and> d1 \<le> timeout
      \<and> callRpcMethod post url ''eth_blockNumber'' [] w1 = (Settles d2 (Fulfilled v), w2)
      \<and> d2 \<le> timeout
      \<and> validateApiResponse (JObj [(''number'', v)]) ''RPC'' = Inr () \<longrightarrow>
    RpcAPIClient_fetchBlockNumber post timeout url w = (Settles (d1 + d2) (Fulfilled v), w2))
   \<and> (callRpcMethod post url ''eth_blockNumber'' [] w = (c1, w1)
      \<and> \<not> settles_within timeout c1
      \<and> callRpcMethod post url ''eth_blockNumber'' [] w1 = (Settles d2 (Fulfilled v), w2)
      \<and> d2 \<le> timeout
      \<and> validateApiResponse (JObj [(''number'', v)]) ''RPC'' = Inr () \<longrightarrow>
    RpcAPIClient_fetchBlockNumber post timeout url w = (Settles (timeout + d2) (Fulfilled v), w2))
   \<and> (callRpcMethod post url ''eth_blockNumber'' [] w = (Settles d1 (Rejected e1), w1)
      \<and> d1 \<le> timeout
      \<and> callRpcMethod post url ''eth_blockNumber'' [] w1 = (Settles d2 (Rejected e2), w2)
      \<and> d2 \<le> timeout \<longrightarrow>
    RpcAPIClient_fetchBlockNumber post timeout url w = (Settles (d1 + d2) (Rejected (Exn RPCError (message_of e2))), w2))
   \<and> (callRpcMethod post url ''eth_blockNumber'' [] w = (Settles d1 (Fulfilled v), w1)
      \<and> d1 \<le> timeout
      \<and> validateApiResponse (JObj [(''number'', v)]) ''RPC'' = Inl e \<longrightarrow>
    RpcAPIClient_fetchBlockNumber post timeout url w = (Settles d1 (Rejected e), w1)))
   \<and> ((callRpcMethod post url ''eth_getBlockByNumber'' [number, JBool False] w = (Settles d1 (Rejected e1), w1)
      \<and> d1 \<le> timeout
      \<and> callRpcMethod post url ''eth_getBlockByNumber'' [number, JBool False] w1 = (Settles d2 (Fulfilled v), w2)
      \<and> d2 \<le> timeout
      \<and> validateApiResponse v ''RPC'' = Inr () \<longrightarrow>
    RpcAPIClient_fetchBlockDetails post timeout url number w = (Settles (d1 + d2) (Fulfilled v), w2))
   \<and> (callRpcMethod post url ''eth_getBlockByNumber'' [number, JBool False] w = (c1, w1)
      \<and> \<not> settles_within timeout c1
      \<and> callRpcMethod post url ''eth_getBlockByNumber'' [number, JBool False] w1 = (Settles d2 (Fulfilled v), w2)
      \<and> d2 \<le> timeout
      \<and> validateApiResponse v ''RPC'' = Inr () \<longrightarrow>
    RpcAPIClient_fetchBlockDetails post timeout url number w = (Settles (timeout + d2) (Fulfilled v), w2))
   \<and> (callRpcMethod post url ''eth_getBlockByNumber'' [number, JBool False] w = (Settles d1 (Rejected e1), w1)
      \<and> d1 \<le> timeout
      \<and> callRpcMethod post url ''eth_getBlockByNumber'' [number, JBool False] w1 = (Settles d2 (Rejected e2), w2)
      \<and> d2 \<le> timeout \<longrightarrow>
    RpcAPIClient_fetchBlockDetails post timeout url number w = (Settles (d1 + d2) (Rejected (Exn RPCError (message_of e2))), w2))
   \<and> (callRpcMethod post url ''eth_getBlockByNumber'' [number, JBool False] w = (Settles d1 (Fulfilled v), w1)
      \<and> d1 \<le> timeout
      \<and> validateApiResponse v ''RPC'' = Inl e \<longrightarrow>
    RpcAPIClient_fetchBlockDetails post timeout url number w = (Settles d1 (Rejected e), w1)))
   \<and> ((callRpcMethod post url ''eth_getTransactionByHash'' [hash] w = (Settles d1 (Rejected e1), w1)
      \<and> d1 \<le> timeout
      \<and> callRpcMethod post url ''eth_getTransactionByHash'' [hash] w1 = (Settles d2 (Fulfilled v), w2)
      \<and> d2 \<le> timeout
      \<and> validateApiResponse v ''RPC'' = Inr () \<longrightarrow>
    RpcAPIClient_fetchTransactionDetails post timeout url hash w = (Settles (d1 + d2) (Fulfilled v), w2))
   \<and> (callRpcMethod post url ''eth_getTransactionByHash'' [hash] w = (c1, w1)
      \<and> \<not> settles_within timeout c1
      \<and> callRpcMethod post url ''eth_getTransactionByHash'' [hash] w1 = (Settles d2 (Fulfilled v), w2)
      \<and> d2 \<le> timeout
      \<and> validateApiResponse v ''RPC'' = Inr () \<longrightarrow>
    RpcAPIClient_fetchTransactionDetails post timeout url hash w = (Settles (timeout + d2) (Fulfilled v), w2))
   \<and> (callRpcMethod post url ''eth_getTransactionByHash'' [hash] w = (Settles d1 (Rejected e1), w1)
      \<and> d1 \<le> timeout
      \<and> callRpcMethod post url ''eth_getTransactionByHash'' [hash] w1 = (Settles d2 (Rejected e2), w2)
      \<and> d2 \<le> timeout \<longrightarrow>
    RpcAPIClient_fetchTransactionDetails post timeout url hash w = (Settles (d1 + d2) (Rejected (Exn RPCError (message_of e2))), w2))
   \<and> (callRpcMethod post url ''eth_getTransactionByHash'' [hash] w = (Settles d1 (Fulfilled v), w1)
      \<and> d1 \<le> timeout
      \<and> validateApiResponse v ''RPC'' = Inl e \<longrightarrow>
    RpcAPIClient_fetchTransactionDetails post timeout url hash w = (Settles d1 (Rejected e), w1)))
   \<and> ((\<not> truthy details \<or> \<not> truthy (get_prop details ''transactions'')
      \<or> get_prop (get_prop details ''transactions'') ''length'' = JNum 0 \<longrightarrow>
    RpcAPIClient_fetchTransactionHash timeout details w
      = (Settles 0 (Rejected (Exn Error ''Block details or transactions are not available'')), w))
   \<and> (truthy details \<and> truthy (get_prop details ''transactions'')
      \<and> get_prop (get_prop details ''transactions'') ''length'' \<noteq> JNum 0 \<longrightarrow>
    RpcAPIClient_fetchTransactionHash timeout details w
      = (if truthy (first_element (get_prop details ''transactions'')) then
           Settles 0 (Fulfilled (first_element (get_prop details ''transactions'')))
         else
           Settles 0 (Rejected (Exn RPCError ''Block or transaction response are invalid'')), w)))
   \<and> settles_within (2 * timeout) (fst (RpcAPIClient_fetchBlockNumber post timeout url w))
   \<and> settles_within (2 * timeout)
       (fst (RpcAPIClient_fetchBlockDetails post timeout url number w))
   \<and> settles_within (2 * timeout) (fst (RpcAPIClient_fetchTransactionHash timeout details w))
   \<and> settles_within (2 * timeout)
       (fst (RpcAPIClient_fetchTransactionDetails post timeout url hash w))"
  by (rule conjI [OF fetchBlockNumber_composition
        conjI [OF fetchBlockDetails_composition
          conjI [OF fetchTransactionDetails_composition
            conjI [OF fetchTransactionHash_composition
              conjI [OF fetchBlockNumber_settles
                conjI [OF fetchBlockDetails_settles
                  conjI [OF fetchTransactionHash_settles fetchTransactionDetails_settles]]]]]]])

text \<open>
  The seven answers of the rehearsal node, taken two at a time from request 0, 2 and 4
  and one at request 6, exercise the four cases for each transport operation.
\<close>

theorem client_operations_composition_witness:
  "RpcAPIClient_fetchBlockNumber rehearsal_node 100 ''node'' 0 = (Settles 160 (Fulfilled full_block), 2)
   \<and> RpcAPIClient_fetchBlockNumber rehearsal_node 100 ''node'' 2 = (Settles 105 (Fulfilled full_block), 4)
   \<and> RpcAPIClient_fetchBlockNumber rehearsal_node 100 ''node'' 4 = (Settles 15 (Rejected (Exn RPCError ''socket hang up'')), 6)
   \<and> RpcAPIClient_fetchBlockNumber rehearsal_node 100 ''node'' 6 = (Settles 5 (Rejected (Exn RPCError ''Block or transaction response are invalid'')), 7)
   \<and> RpcAPIClient_fetchBlockDetails rehearsal_node 100 ''node'' (JStr ''0x10'') 0 = (Settles 160 (Fulfilled full_block), 2)
   \<and> RpcAPIClient_fetchBlockDetails rehearsal_node 100 ''node'' (JStr ''0x10'') 2 = (Settles 105 (Fulfilled full_block), 4)
   \<and> RpcAPIClient_fetchBlockDetails rehearsal_node 100 ''node'' (JStr ''0x10'') 4 = (Settles 15 (Rejected (Exn RPCError ''socket hang up'')), 6)
   \<and> RpcAPIClient_fetchBlockDetails rehearsal_node 100 ''node'' (JStr ''0x10'') 6 = (Settles 5 (Rejected (Exn RPCError ''Response is null or undefined'')), 7)
   \<and> RpcAPIClient_fetchTransactionDetails rehearsal_node 100 ''node'' (JStr valid_hash) 0 = (Settles 160 (Fulfilled full_block), 2)
   \<and> RpcAPIClient_fetchTransactionDetails rehearsal_node 100 ''node'' (JStr valid_hash) 2 = (Settles 105 (Fulfilled full_block), 4)
   \<and> RpcAPIClient_fetchTransactionDetails rehearsal_node 100 ''node'' (JStr valid_hash) 4 = (Settles 15 (Rejected (Exn RPCError ''socket hang up'')), 6)
   \<and> RpcAPIClient_fetchTransactionDetails rehearsal_node 100 ''node'' (JStr valid_hash) 6 = (Settles 5 (Rejected (Exn RPCError ''Response is null or undefined'')), 7)
   \<and> RpcAPIClient_fetchTransactionHash 100 empty_block (0::nat)
       = (Settles 0 (Rejected (Exn Error ''Block details or transactions are not available'')), 0)
   \<and> RpcAPIClient_fetchTransactionHash 100 full_block (2::nat)
       = (Settles 0 (Fulfilled (JStr valid_hash)), 2)
   \<and> settles_within 200 (fst (RpcAPIClient_fetchBlockNumber rehearsal_node 100 ''node'' 2))"
proof -
  have call: "callRpcMethod rehearsal_node ''node'' m ps 0
        = (Settles 80 (Rejected (Exn Error ''Network Error'')), 1)"
      "callRpcMethod rehearsal_node ''node'' m ps (Suc 0) = (Settles 80 (Fulfilled full_block), 2)"
      "callRpcMethod rehearsal_node ''node'' m ps 2 = (Never, 3)"
      "callRpcMethod rehearsal_node ''node'' m ps 3 = (Settles 5 (Fulfilled full_block), 4)"
      "callRpcMethod rehearsal_node ''node'' m ps 4
        = (Settles 7 (Rejected (Exn Error ''Network Error'')), 5)"
      "callRpcMethod rehearsal_node ''node'' m ps 5
        = (Settles 8 (Rejected (Exn Error ''socket hang up'')), 6)"
      "callRpcMethod rehearsal_node ''node'' m ps 6 = (Settles 5 (Fulfilled JUndefined), 7)"
    for m ps
    by (simp_all add: callRpcMethod_def createRequest_def rehearsal_node_def scripted_def
          script_of_def nullish_def)
  have valid: "validateApiResponse (JObj [(''number'', full_block)]) ''RPC'' = Inr ()"
      "validateApiResponse full_block ''RPC'' = Inr ()"
    by (simp_all add: validateApiResponse_def block_format_checks_def
          transaction_format_checks_def shape_check_def and_then_def full_block_def
          valid_hash_ok valid_hash_truthy is_hex_digit_def)
  have invalid: "validateApiResponse (JObj [(''number'', JUndefined)]) ''RPC''
        = Inl (Exn RPCError ''Block or transaction response are invalid'')"
      "validateApiResponse JUndefined ''RPC''
        = Inl (Exn RPCError ''Response is null or undefined'')"
    by (simp_all add: validateApiResponse_def block_format_checks_def
          transaction_format_checks_def shape_check_def and_then_def handleError_def)
  have blocks: "\<not> truthy (get_prop (get_prop empty_block ''transactions'') ''length'')"
      "get_prop (get_prop empty_block ''transactions'') ''length'' = JNum 0"
      "truthy full_block" "truthy (get_prop full_block ''transactions'')"
      "get_prop (get_prop full_block ''transactions'') ''length'' \<noteq> JNum 0"
      "first_element (get_prop full_block ''transactions'') = JStr valid_hash"
    by (simp_all add: empty_block_def full_block_def)
  note inst = client_operations_composition
      [where post = rehearsal_node and url = "''node''" and timeout = 100
        and number = "JStr ''0x10''" and hash = "JStr valid_hash"]
  have first_case:
    "RpcAPIClient_fetchBlockNumber rehearsal_node 100 ''node'' 0
       = (Settles 160 (Fulfilled full_block), 2)
     \<and> RpcAPIClient_fetchBlockDetails rehearsal_node 100 ''node'' (JStr ''0x10'') 0
       = (Settles 160 (Fulfilled full_block), 2)
     \<and> RpcAPIClient_fetchTransactionDetails rehearsal_node 100 ''node'' (JStr valid_hash) 0
       = (Settles 160 (Fulfilled full_block), 2)
     \<and> RpcAPIClient_fetchTransactionHash 100 empty_block (0::nat)
       = (Settles 0 (Rejected (Exn Error ''Block details or transactions are not available'')), 0)"
    using inst [where w = 0 and ?d1.0 = 80 and ?e1.0 = "Exn Error ''Network Error''"
        and ?w1.0 = 1 and ?d2.0 = 80 and v = full_block and ?w2.0 = 2
        and details = empty_block and ?c1.0 = Never and ?e2.0 = "Exn Error ''none''"
        and e = "Exn Error ''none''"]
    by (simp add: call valid blocks)
  have second_case:
    "RpcAPIClient_fetchBlockNumber rehearsal_node 100 ''node'' 2
       = (Settles 105 (Fulfilled full_block), 4)
     \<and> RpcAPIClient_fetchBlockDetails rehearsal_node 100 ''node'' (JStr ''0x10'') 2
       = (Settles 105 (Fulfilled full_block), 4)
     \<and> RpcAPIClient_fetchTransactionDetails rehearsal_node 100 ''node'' (JStr valid_hash) 2
       = (Settles 105 (Fulfilled full_block), 4)
     \<and> RpcAPIClient_fetchTransactionHash 100 full_block (2::nat)
       = (Settles 0 (Fulfilled (JStr valid_hash)), 2)
     \<and> settles_within 200 (fst (RpcAPIClient_fetchBlockNumber rehearsal_node 100 ''node'' 2))"
    using inst [where w = 2 and ?c1.0 = Never and ?w1.0 = 3 and ?d2.0 = 5 and v = full_block
        and ?w2.0 = 4 and details = full_block and ?d1.0 = 0
        and ?e1.0 = "Exn Error ''none''" and ?e2.0 = "Exn Error ''none''"
        and e = "Exn Error ''none''"]
    by (simp add: call valid blocks valid_hash_truthy)
  have third_case:
    "RpcAPIClient_fetchBlockNumber rehearsal_node 100 ''node'' 4
       = (Settles 15 (Rejected (Exn RPCError ''socket hang up'')), 6)
     \<and> RpcAPIClient_fetchBlockDetails rehearsal_node 100 ''node'' (JStr ''0x10'') 4
       = (Settles 15 (Rejected (Exn RPCError ''socket hang up'')), 6)
     \<and> RpcAPIClient_fetchTransactionDetails rehearsal_node 100 ''node'' (JStr valid_hash) 4
       = (Settles 15 (Rejected (Exn RPCError ''socket hang up'')), 6)"
    using inst [where w = 4 and ?d1.0 = 7 and ?e1.0 = "Exn Error ''Network Error''"
        and ?w1.0 = 5 and ?d2.0 = 8 and ?e2.0 = "Exn Error ''socket hang up''" and ?w2.0 = 6
        and ?c1.0 = Never and v = JUndefined and e = "Exn Error ''none''"
        and details = empty_block]
    by (simp add: call)
  have fourth_case:
    "RpcAPIClient_fetchBlockNumber rehearsal_node 100 ''node'' 6
       = (Settles 5 (Rejected (Exn RPCError ''Block or transaction response are invalid'')), 7)"
    using inst [where w = 6 and ?d1.0 = 5 and v = JUndefined and ?w1.0 = 7
        and e = "Exn RPCError ''Block or transaction response are invalid''"
        and ?c1.0 = Never and ?e1.0 = "Exn Error ''none''" and ?e2.0 = "Exn Error ''none''"
        and ?d2.0 = 0 and ?w2.0 = 0 and details = empty_block]
    by (simp add: call invalid)
  have fifth_case:
    "RpcAPIClient_fetchBlockDetails rehearsal_node 100 ''node'' (JStr ''0x10'') 6
       = (Settles 5 (Rejected (Exn RPCError ''Response is null or undefined'')), 7)
     \<and> RpcAPIClient_fetchTransactionDetails rehearsal_node 100 ''node'' (JStr valid_hash) 6
       = (Settles 5 (Rejected (Exn RPCError ''Response is null or undefined'')), 7)"
    using inst [where w = 6 and ?d1.0 = 5 and v = JUndefined and ?w1.0 = 7
        and e = "Exn RPCError ''Response is null or undefined''"
        and ?c1.0 = Never and ?e1.0 = "Exn Error ''none''" and ?e2.0 = "Exn Error ''none''"
        and ?d2.0 = 0 and ?w2.0 = 0 and details = empty_block]
    by (simp add: call invalid)
  from first_case second_case third_case fourth_case fifth_case show ?thesis
    by simp
qed

text \<open>
  C2: the builder's \<open>fetchTransactionHash\<close> is claimed to see fresh data on each poll.
  Its loop fetches nothing: with a stored block whose transaction list is empty it waits
  three times 2000 ms and fails with the "maximum retries" message, and the world (the
  node and what it would have answered) is left untouched.
\<close>

theorem stalled_polling:
  "RpcTestScenarioBuilder_fetchTransactionHash timeout (this\<lparr>blockDetails := empty_block\<rparr>) w
     = (Settles 6000
          (Rejected
            (Exn Error ''Block details or transactions are not available after maximum retries'')),
        this\<lparr>blockDetails := empty_block\<rparr>, w)"
  by (simp add: RpcTestScenarioBuilder_fetchTransactionHash_def empty_block_def
        wait_for_transactions.simps MAX_RETRIES_def RETRY_DELAY_def nullish_def)

text \<open>
  The scenario on the refilling node: the block number and the (empty) block are fetched
  with two requests; a third request would bring a transaction, but
  \<open>fetchTransactionHash\<close> fails after 6000 ms with the request count still at 2.
\<close>

theorem stalled_polling_witness:
  "RpcTestScenarioBuilder_fetchBlockNumber refilling_node 100 (new_builder ''node'') 0
     = (Settles 5 (Fulfilled ()), (new_builder ''node'')\<lparr>blockNumber := JStr ''0x10''\<rparr>, 1)
   \<and> RpcTestScenarioBuilder_fetchBlockDetails refilling_node 100
       ((new_builder ''node'')\<lparr>blockNumber := JStr ''0x10''\<rparr>) 1
     = (Settles 5 (Fulfilled ()),
        (new_builder ''node'')\<lparr>blockNumber := JStr ''0x10'', blockDetails := empty_block\<rparr>, 2)
   \<and> callRpcMethod refilling_node ''node'' ''eth_getBlockByNumber''
       [JStr ''0x10'', JBool False] 2
     = (Settles 5
          (Fulfilled (JObj [(''number'', JStr ''0x10''), (''hash'', JStr valid_hash),
                            (''transactions'', JArr [JStr valid_hash])])), 3)
   \<and> RpcTestScenarioBuilder_fetchTransactionHash 100
       ((new_builder ''node'')\<lparr>blockNumber := JStr ''0x10'', blockDetails := empty_block\<rparr>) (2::nat)
     = (Settles 6000
          (Rejected
            (Exn Error ''Block details or transactions are not available after maximum retries'')),
        (new_builder ''node'')\<lparr>blockNumber := JStr ''0x10'', blockDetails := empty_block\<rparr>, 2)"
  using stalled_polling [of 100 "(new_builder ''node'')\<lparr>blockNumber := JStr ''0x10''\<rparr>" 2]
    scenario_block_number scenario_block_details scenario_next_answer
  by simp

text \<open>
  C3, as stated: an error of the action that arrives before the deadline leaves
  \<open>apiRequestWithTimeout\<close> unchanged. It does not: a plain \<open>Error\<close> thrown after 10 ms
  comes out as an \<open>RPCError\<close>.
\<close>

theorem timeout_rewraps_counterexample:
  "apiRequestWithTimeout (scripted always_boom) 100 ''RPC'' 0
     = (Settles 10 (Rejected (Exn RPCError ''boom'')), 1)
   \<and> always_boom 0 = Settles 10 (Rejected (Exn Error ''boom''))
   \<and> Exn RPCError ''boom'' \<noteq> Exn Error ''boom''"
  by (simp add: apiRequestWithTimeout_def scripted_def always_boom_def handleError_def)

text \<open>
  C3, amended: when the action fails with an \<open>Error\<close> before the deadline,
  \<open>apiRequestWithTimeout\<close> fails at the same moment with a new error of the class that
  \<open>errorType\<close> selects, carrying the message of the action's error (and not the
  timeout message).
\<close>

theorem timeout_passes_message:
  assumes "action w = (Settles d (Rejected (Exn c m)), w')" and "d < timeout"
  shows "apiRequestWithTimeout action timeout errorType w =
           (Settles d
              (Rejected
                (Exn (if errorType = ''RPC'' then RPCError
                      else if errorType = ''WALLET_API'' then WalletAPIError
                      else if errorType = ''USER_API'' then UserAPIError
                      else GenericAPIError) m)), w')"
  using assms by (simp add: apiRequestWithTimeout_def handleError_def)

theorem timeout_passes_message_witness:
  "scripted always_boom 0 = (Settles 10 (Rejected (Exn Error ''boom'')), 1) \<and> (10::nat) < 100
   \<and> apiRequestWithTimeout (scripted always_boom) 100 ''GENERIC_API'' 0
       = (Settles 10 (Rejected (Exn GenericAPIError ''boom'')), 1)"
proof -
  have a: "scripted always_boom 0 = (Settles 10 (Rejected (Exn Error ''boom'')), 1)"
    by (simp add: scripted_def always_boom_def)
  have b: "(10::nat) < 100" by simp
  show ?thesis
    using a b timeout_passes_message [where action = "scripted always_boom" and w = 0 and d = 10
        and c = Error and m = "''boom''" and w' = 1 and timeout = 100
        and errorType = "''GENERIC_API''"] by simp
qed

text \<open>
  C4: a transaction payload whose \<open>to\<close> is \<open>null\<close> (a contract creation) is claimed
  to have its \<open>from\<close> and \<open>transactionIndex\<close> checked. The guard of the block tests
  \<open>response.to\<close> for truthiness, so with \<open>to = null\<close> the block is skipped and a
  payload with a malformed \<open>from\<close> passes.
\<close>

theorem validate_null_to:
  "validateApiResponse
     (JObj [(''transactionIndex'', JStr ''0x1''), (''from'', JStr ''nobody''), (''to'', JNull)])
     ''RPC'' = Inr ()
   \<and> \<not> test_hex_fixed 40 ''nobody''"
  by (simp add: validateApiResponse_def block_format_checks_def transaction_format_checks_def
        shape_check_def and_then_def)

text \<open>
  C5, as stated: every string \<open>s\<close> that does not match the block number pattern makes
  \<open>validate({number: s, hash: validHash})\<close> fail. The empty string does not match,
  yet the payload passes: an empty \<open>number\<close> is falsy, so the block checks are skipped,
  and the hash alone satisfies the last check.
\<close>

theorem validate_empty_number_counterexample:
  "\<not> test_hex_quantity '''' \<and> test_hex_fixed 64 valid_hash
   \<and> validateApiResponse (JObj [(''number'', JStr ''''), (''hash'', JStr valid_hash)]) ''RPC''
       = Inr ()"
  by (simp add: validateApiResponse_def block_format_checks_def transaction_format_checks_def
        shape_check_def and_then_def valid_hash_def is_hex_digit_def list_all_iff)

text \<open>
  C5, amended: with a valid hash, every non-empty string \<open>s\<close> that does not match
  \<open>^0x[a-fA-F0-9]+$\<close> makes the validation of \<open>{number: s, hash}\<close> fail (with
  "Invalid block number format"), and every \<open>s\<close> that matches makes it succeed.
\<close>

theorem validate_block_number_format:
  assumes "test_hex_fixed 64 h"
  shows "(s \<noteq> [] \<and> \<not> test_hex_quantity s \<longrightarrow>
            validateApiResponse (JObj [(''number'', JStr s), (''hash'', JStr h)]) errorType
              = Inl (handleError (Exn Error ''Invalid block number format'') errorType))
       \<and> (test_hex_quantity s \<longrightarrow>
            validateApiResponse (JObj [(''number'', JStr s), (''hash'', JStr h)]) errorType
              = Inr ())"
  using assms test_hex_fixed_truthy [of 64 h] test_hex_quantity_truthy [of s]
  by (auto simp add: validateApiResponse_def block_format_checks_def
        transaction_format_checks_def shape_check_def and_then_def)

theorem validate_block_number_format_witness:
  "test_hex_fixed 64 valid_hash
   \<and> validateApiResponse (JObj [(''number'', JStr ''16''), (''hash'', JStr valid_hash)]) ''RPC''
       = Inl (Exn RPCError ''Invalid block number format'')
   \<and> validateApiResponse (JObj [(''number'', JStr ''0x10''), (''hash'', JStr valid_hash)]) ''RPC''
       = Inr ()"
proof -
  have h: "test_hex_fixed 64 valid_hash"
    by (simp add: valid_hash_def is_hex_digit_def list_all_iff)
  have bad: "''16'' \<noteq> [] \<and> \<not> test_hex_quantity ''16''" by simp
  have good: "test_hex_quantity ''0x10''" by (simp add: is_hex_digit_def)
  show ?thesis
    using h bad good
      validate_block_number_format [OF h, of "''16''" "''RPC''"]
      validate_block_number_format [OF h, of "''0x10''" "''RPC''"]
    by (simp add: handleError_def)
qed

text \<open>
  C6: when every invocation of the action fails, \<open>retryApiRequest(action, n)\<close> invokes
  it exactly \<open>n\<close> times and then fails; for \<open>n > 0\<close> the failure is the error of the
  \<open>n\<close>-th invocation passed through \<open>handleError\<close>, at the moment that invocation
  fails. (For \<open>n = 0\<close> there is no invocation and the failure is "All retries failed".)
\<close>

theorem retry_exhausts:
  assumes "\<forall>i<n. \<exists>d e. outcomes i = Settles d (Rejected e)"
  shows "(n = 0 \<longrightarrow>
            retryApiRequest (scripted outcomes) n errorType 0 =
              (Settles 0 (Rejected (handleError (Exn Error ''All retries failed'') errorType)), 0))
       \<and> (0 < n \<and> outcomes (n - 1) = Settles d (Rejected e) \<longrightarrow>
            retryApiRequest (scripted outcomes) n errorType 0 =
              (Settles (\<Sum>i<n. duration (outcomes i)) (Rejected (handleError e errorType)), n))"
proof (intro conjI impI)
  assume "n = 0"
  then show "retryApiRequest (scripted outcomes) n errorType 0 =
      (Settles 0 (Rejected (handleError (Exn Error ''All retries failed'') errorType)), 0)"
    by (simp add: retryApiRequest_def retry_loop_exhausted)
next
  assume a: "0 < n \<and> outcomes (n - 1) = Settles d (Rejected e)"
  then obtain k where k: "n = Suc k" by (cases n) auto
  have "retry_loop (scripted outcomes) n errorType 0 0 0 =
      (Settles (0 + (\<Sum>i<k. duration (outcomes (0 + i))) + d)
         (Rejected (handleError e errorType)), 0 + k + 1)"
    using a k assms by (intro retry_loop_all_fail) simp_all
  with a k show "retryApiRequest (scripted outcomes) n errorType 0 =
      (Settles (\<Sum>i<n. duration (outcomes i)) (Rejected (handleError e errorType)), n)"
    by (simp add: retryApiRequest_def)
qed

theorem retry_exhausts_witness:
  "always_boom 2 = Settles 10 (Rejected (Exn Error ''boom''))
   \<and> retryApiRequest (scripted always_boom) 3 ''RPC'' 0
       = (Settles 30 (Rejected (Exn RPCError ''boom'')), 3)
   \<and> retryApiRequest (scripted always_boom) 0 ''RPC'' 0
       = (Settles 0 (Rejected (Exn RPCError ''All retries failed'')), 0)"
proof -
  have fails: "\<forall>i<n. \<exists>d e. always_boom i = Settles d (Rejected e)" for n
    by (simp add: always_boom_def)
  have total: "(\<Sum>i<3. duration (always_boom i)) = 30"
    by (simp add: always_boom_def)
  have last: "always_boom 2 = Settles 10 (Rejected (Exn Error ''boom''))"
    by (simp add: always_boom_def)
  show ?thesis
    using retry_exhausts [OF fails [of 3], where d = 10 and e = "Exn Error ''boom''"
        and errorType = "''RPC''"]
      retry_exhausts [OF fails [of 0], where d = 10 and e = "Exn Error ''boom''"
        and errorType = "''RPC''"] last total
    by (simp add: handleError_def)
qed

text \<open>
  C7: when the action fails on its first \<open>k < n\<close> invocations and succeeds on the next,
  \<open>retryApiRequest(action, n)\<close> returns that value, having invoked the action exactly
  \<open>k + 1\<close> times, one right after the other.
\<close>

theorem retry_short_circuits:
  assumes "k < n"
    and "\<forall>i<k. \<exists>d e. outcomes i = Settles d (Rejected e)"
    and "outcomes k = Settles d (Fulfilled v)"
  shows "retryApiRequest (scripted outcomes) n errorType 0 =
           (Settles ((\<Sum>i<k. duration (outcomes i)) + d) (Fulfilled v), k + 1)"
  using assms retry_loop_fail_then_ok [of 0 k n outcomes 0 d v errorType 0]
  by (simp add: retryApiRequest_def)

theorem retry_short_circuits_witness:
  "fails_twice 0 = Settles 3 (Rejected (Exn Error ''busy''))
   \<and> fails_twice 1 = Settles 3 (Rejected (Exn Error ''busy''))
   \<and> fails_twice 2 = Settles 4 (Fulfilled (JStr ''0x10''))
   \<and> retryApiRequest (scripted fails_twice) 5 ''RPC'' 0
       = (Settles 10 (Fulfilled (JStr ''0x10'')), 3)"
proof -
  have k: "(2::nat) < 5" by simp
  have fails: "\<forall>i<2. \<exists>d e. fails_twice i = Settles d (Rejected e)"
    by (simp add: fails_twice_def)
  have ok: "fails_twice 2 = Settles 4 (Fulfilled (JStr ''0x10''))"
    by (simp add: fails_twice_def)
  have total: "(\<Sum>i<2. duration (fails_twice i)) = 6"
    by (simp add: fails_twice_def)
  have first: "fails_twice 0 = Settles 3 (Rejected (Exn Error ''busy''))"
    and second: "fails_twice 1 = Settles 3 (Rejected (Exn Error ''busy''))"
    by (simp_all add: fails_twice_def)
  show ?thesis
    using retry_short_circuits [OF k fails ok, of "''RPC''"] total first second ok
    by simp
qed

text \<open>
  C8: whenever the decoded body carries a populated (truthy) \<open>error\<close>, \<open>createRequest\<close>
  fails with an \<open>Error\<close> whose message is \<open>RPC Error: \<close> followed by the error's
  \<open>message\<close> as the template literal renders it (a string as it is); when the body
  carries no error, it returns the body as it is, \<open>result\<close> included.
\<close>

theorem createRequest_error_field:
  assumes "post nodeUrl (requestBody method params request_id) w = (Settles d (Fulfilled data), w')"
  shows "(truthy (get_prop data ''error'') \<longrightarrow>
          createRequest post method params request_id nodeUrl w
            = (Settles d
                 (Rejected
                   (Exn Error
                     (''RPC Error: '' @ to_string (get_prop (get_prop data ''error'') ''message'')))),
               w'))
       \<and> (\<not> nullish data \<and> \<not> truthy (get_prop data ''error'') \<longrightarrow>
          createRequest post method params request_id nodeUrl w = (Settles d (Fulfilled data), w'))"
  using assms get_prop_nullish [of data "''error''"]
  by (auto simp add: createRequest_def)

theorem createRequest_error_field_witness:
  "createRequest
     (answering_node (JObj [(''jsonrpc'', JStr ''2.0''), (''id'', JNum 1),
        (''error'', JObj [(''code'', JNum (- 32601)), (''message'', JStr ''Method not found'')])]))
     ''eth_blockNumber'' [] 1 ''node'' 0
     = (Settles 5 (Rejected (Exn Error ''RPC Error: Method not found'')), 1)
   \<and> createRequest
     (answering_node (JObj [(''jsonrpc'', JStr ''2.0''), (''id'', JNum 1), (''result'', JStr ''0x10'')]))
     ''eth_blockNumber'' [] 1 ''node'' 0
     = (Settles 5 (Fulfilled
         (JObj [(''jsonrpc'', JStr ''2.0''), (''id'', JNum 1), (''result'', JStr ''0x10'')])), 1)"
  using
    createRequest_error_field
      [of "answering_node (JObj [(''jsonrpc'', JStr ''2.0''), (''id'', JNum 1),
             (''error'', JObj [(''code'', JNum (- 32601)),
                               (''message'', JStr ''Method not found'')])])"
          "''node''" "''eth_blockNumber''" "[]" 1 0 5
          "JObj [(''jsonrpc'', JStr ''2.0''), (''id'', JNum 1),
             (''error'', JObj [(''code'', JNum (- 32601)),
                               (''message'', JStr ''Method not found'')])]"
          1]
    createRequest_error_field
      [of "answering_node
             (JObj [(''jsonrpc'', JStr ''2.0''), (''id'', JNum 1), (''result'', JStr ''0x10'')])"
          "''node''" "''eth_blockNumber''" "[]" 1 0 5
          "JObj [(''jsonrpc'', JStr ''2.0''), (''id'', JNum 1), (''result'', JStr ''0x10'')]"
          1]
  by (simp add: answering_node_def scripted_def nullish_def)

text \<open>
  C9: on a builder that has stored no block number, \<open>fetchBlockDetails\<close> fails at once
  with "Block number is not available"; on one that has stored no transaction hash,
  \<open>fetchTransactionDetails\<close> fails at once with "Transaction hash is not available".
  Neither touches the world: no request is sent.
\<close>

theorem builder_preconditions:
  "(blockNumber this = JNull \<longrightarrow>
      RpcTestScenarioBuilder_fetchBlockDetails post timeout this w
        = (Settles 0 (Rejected (Exn Error ''Block number is not available'')), this, w))
   \<and> (transactionHash this = JNull \<longrightarrow>
      RpcTestScenarioBuilder_fetchTransactionDetails post timeout this w
        = (Settles 0 (Rejected (Exn Error ''Transaction hash is not available'')), this, w))"
  by (simp add: RpcTestScenarioBuilder_fetchBlockDetails_def
        RpcTestScenarioBuilder_fetchTransactionDetails_def)

theorem builder_preconditions_witness:
  "RpcTestScenarioBuilder_fetchBlockDetails flaky_node 100 (new_builder ''node'') 0
     = (Settles 0 (Rejected (Exn Error ''Block number is not available'')), new_builder ''node'', 0)
   \<and> RpcTestScenarioBuilder_fetchTransactionDetails flaky_node 100 (new_builder ''node'') 0
     = (Settles 0 (Rejected (Exn Error ''Transaction hash is not available'')),
        new_builder ''node'', 0)"
  using builder_preconditions [of "new_builder ''node''" flaky_node 100 0]
  by (simp add: new_builder_def)

text \<open>
  C10: for every truthy value \<open>v\<close>, \<open>{number: v}\<close> and \<open>{hash: v}\<close> pass the
  validator whatever \<open>v\<close> looks like, so \<open>fetchBlockNumber\<close> returns any truthy
  result the node sends in time, and \<open>fetchTransactionHash\<close> returns any truthy first
  element of the block's transactions.
\<close>

theorem unchecked_single_marker:
  assumes "truthy v"
  shows "validateApiResponse (JObj [(''number'', v)]) errorType = Inr ()
       \<and> validateApiResponse (JObj [(''hash'', v)]) errorType = Inr ()
       \<and> (callRpcMethod post url ''eth_blockNumber'' [] w = (Settles d (Fulfilled v), w')
            \<and> d \<le> timeout \<longrightarrow>
          RpcAPIClient_fetchBlockNumber post timeout url w = (Settles d (Fulfilled v), w'))
       \<and> (truthy details \<and> get_prop details ''transactions'' = JArr (v # vs) \<longrightarrow>
          RpcAPIClient_fetchTransactionHash timeout details w = (Settles 0 (Fulfilled v), w))"
proof -
  have number: "validateApiResponse (JObj [(''number'', v)]) errorType = Inr ()" for errorType
    using assms
    by (simp add: validateApiResponse_def block_format_checks_def transaction_format_checks_def
          shape_check_def and_then_def)
  have hash: "validateApiResponse (JObj [(''hash'', v)]) errorType = Inr ()" for errorType
    using assms
    by (simp add: validateApiResponse_def block_format_checks_def transaction_format_checks_def
          shape_check_def and_then_def)
  have block: "RpcAPIClient_fetchBlockNumber post timeout url w = (Settles d (Fulfilled v), w')"
    if "callRpcMethod post url ''eth_blockNumber'' [] w = (Settles d (Fulfilled v), w')"
      and "d \<le> timeout"
  proof -
    have "apiRequestWithTimeout (callRpcMethod post url ''eth_blockNumber'' []) timeout ''RPC'' w
        = (Settles d (Fulfilled v), w')"
      using that by (simp add: apiRequestWithTimeout_def)
    then have "retryApiRequest
        (apiRequestWithTimeout (callRpcMethod post url ''eth_blockNumber'' []) timeout ''RPC'')
        2 ''RPC'' w = (Settles d (Fulfilled v), w')"
      by (simp add: retryApiRequest_def retry_loop_fulfilled)
    then show ?thesis
      by (simp add: RpcAPIClient_fetchBlockNumber_def validated_def number)
  qed
  have tx: "RpcAPIClient_fetchTransactionHash timeout details w = (Settles 0 (Fulfilled v), w)"
    if "truthy details" and "get_prop details ''transactions'' = JArr (v # vs)"
  proof -
    have "retryApiRequest
        (apiRequestWithTimeout
           (\<lambda>w. (Settles 0 (Fulfilled (first_element (get_prop details ''transactions''))), w))
           timeout ''RPC'')
        2 ''RPC'' w = (Settles 0 (Fulfilled v), w)"
      using that
      by (simp add: retryApiRequest_def
            retry_loop_fulfilled [where d = 0 and v = v and w' = w] apiRequestWithTimeout_def)
    with that show ?thesis
      by (simp add: RpcAPIClient_fetchTransactionHash_def validated_def hash)
  qed
  from number hash block tx show ?thesis by blast
qed

theorem unchecked_single_marker_witness:
  "truthy (JStr ''latest'')
   \<and> validateApiResponse (JObj [(''number'', JStr ''latest'')]) ''RPC'' = Inr ()
   \<and> validateApiResponse (JObj [(''hash'', JStr ''latest'')]) ''RPC'' = Inr ()
   \<and> RpcAPIClient_fetchBlockNumber (answering_node (JObj [(''result'', JStr ''latest'')]))
        100 ''node'' 0 = (Settles 5 (Fulfilled (JStr ''latest'')), 1)
   \<and> RpcAPIClient_fetchTransactionHash 100 (JObj [(''transactions'', JArr [JStr ''latest''])])
        (0::nat) = (Settles 0 (Fulfilled (JStr ''latest'')), 0)"
proof -
  have t: "truthy (JStr ''latest'')" by simp
  have call: "callRpcMethod (answering_node (JObj [(''result'', JStr ''latest'')])) ''node''
      ''eth_blockNumber'' [] 0 = (Settles 5 (Fulfilled (JStr ''latest'')), 1)"
    by (simp add: callRpcMethod_def createRequest_def answering_node_def scripted_def nullish_def)
  show ?thesis
    using t call
      unchecked_single_marker [OF t, of "''RPC''"
        "answering_node (JObj [(''result'', JStr ''latest'')])" "''node''" 0 5 1 100
        "JObj [(''transactions'', JArr [JStr ''latest''])]" "[]"]
    by simp
qed

end
